theory Spec2Isabelle
  imports Main "HOL-Library.Word" "HOL-Library.Signed_Division"
begin

unbundle bit_operations_syntax

section \<open>Environment and standard-library collaborators\<close>

text \<open>
  The process environment is a finite table from variable names to values.
  \<open>os.Getenv\<close> returns the empty string for a variable that is not set.
\<close>

type_synonym environ = "string \<rightharpoonup> string"

definition Getenv :: "environ \<Rightarrow> string \<Rightarrow> string" where
  "Getenv env k = (case env k of None \<Rightarrow> [] | Some v \<Rightarrow> v)"

text \<open>
  \<open>strconv.Atoi\<close> of the Go standard library: an optional sign, then at least one
  decimal digit and nothing else; the value has to fit the 64-bit \<open>int\<close>. Every
  other string is an error, modelled as \<open>None\<close>.
\<close>

definition isDigit :: "char \<Rightarrow> bool" where
  "isDigit c = (48 \<le> (of_char c :: nat) \<and> (of_char c :: nat) \<le> 57)"

fun digitsValue :: "nat \<Rightarrow> string \<Rightarrow> nat" where
  "digitsValue n [] = n"
| "digitsValue n (c # cs) = digitsValue (n * 10 + ((of_char c :: nat) - 48)) cs"

definition Atoi :: "string \<Rightarrow> int option" where
  "Atoi s =
     (let neg = (case s of [] \<Rightarrow> False | c # _ \<Rightarrow> c = CHR ''-'');
          body = (case s of [] \<Rightarrow> []
                  | c # r \<Rightarrow> if c = CHR ''-'' \<or> c = CHR ''+'' then r else s)
      in if body = [] \<or> \<not> list_all isDigit body then None
         else (let v = (if neg then - int (digitsValue 0 body) else int (digitsValue 0 body))
               in if - (2 ^ 63) \<le> v \<and> v < 2 ^ 63 then Some v else None))"

section \<open>Snaplen\<close>

text \<open>
  \<open>getSnaplenEnv\<close> of network_analyzer.go: read SNAPLEN, parse it with Atoi, and
  fall back to 1000 bytes when Atoi reports an error.
\<close>

definition getSnaplenEnv :: "environ \<Rightarrow> int" where
  "getSnaplenEnv env =
     (let snaplen = Getenv env ''SNAPLEN'' in
      case Atoi snaplen of
        None \<Rightarrow> 1000
      | Some snaplenInt \<Rightarrow> snaplenInt)"

section \<open>The Prometheus metrics server\<close>

text \<open>
  \<open>StartServer\<close> of the otelexporter package. \<open>Logger.Panic\<close> logs and panics, so
  the function has two ways to end: a panic, or a returned error value (\<open>None\<close> is
  Go's nil). \<open>http.Server.ListenAndServe\<close> is an external collaborator and is taken
  as a parameter from the listen address to the error it ends with. The \<open>ports\<close>
  argument is a Go map, so its keys are unique and the \<open>range\<close> loop that stops at
  the key equal to the variable's value is a lookup; \<open>port\<close> keeps its zero value,
  the empty string, when no key matches.
\<close>

datatype srvError = ErrServerClosed | OtherError string

datatype panicMessage = ModNumberNotSet | MetricPortNotFound

datatype 'a outcome = Panics panicMessage | Returns 'a

definition StartServer ::
  "environ \<Rightarrow> (string \<rightharpoonup> string) \<Rightarrow> (string \<Rightarrow> srvError option) \<Rightarrow> srvError option outcome" where
  "StartServer env ports ListenAndServe =
     (let kindling_mod_number = Getenv env ''kindling_mod_number'' in
      if kindling_mod_number = [] then Panics ModNumberNotSet
      else
        (let port = (case ports kindling_mod_number of None \<Rightarrow> [] | Some v \<Rightarrow> v) in
         if port = [] then Panics MetricPortNotFound
         else
           (let err = ListenAndServe port in
            if err \<noteq> None \<and> err \<noteq> Some ErrServerClosed then Returns err
            else Returns None)))"

definition serveUntilClosed :: "string \<Rightarrow> srvError option" where
  "serveUntilClosed addr = Some ErrServerClosed"

section \<open>The network analyzer: data model\<close>

text \<open>
  The analyzer of network_analyzer.go works on types whose declarations live in other
  packages: the captured event, the attribute map, the payload message, the Events
  container and the FlowState (\<open>messagePairs\<close>). Their shape is taken from the uses
  in network_analyzer.go and from sections 3, 4.7, 4.9 and 6 of the specification;
  every helper that is stated from the specification says so.
\<close>

type_synonym bytes = "8 word list"

datatype error = NilPointerDereference | IndexOutOfRange

subsection \<open>Attribute maps and label names\<close>

text \<open>
  Modelled from the spec: \<open>model.AttributeMap\<close> is declared outside the analyzer; the
  specification (section 3) describes it as a typed map (string, int, bool) from names
  to values. A getter of the wrong type or of a missing name gives Go's zero value;
  \<open>Add\<close> and \<open>UpdateAdd\<close> both leave the name bound to the new value; \<open>Merge\<close>
  copies every entry of its argument over the receiver and does nothing for nil.
\<close>

datatype attrValue = IntValue int | StringValue string | BoolValue bool

type_synonym attributeMap = "string \<rightharpoonup> attrValue"

definition GetIntValue :: "attributeMap \<Rightarrow> string \<Rightarrow> int" where
  "GetIntValue m k = (case m k of Some (IntValue i) \<Rightarrow> i | _ \<Rightarrow> 0)"

definition GetStringValue :: "attributeMap \<Rightarrow> string \<Rightarrow> string" where
  "GetStringValue m k = (case m k of Some (StringValue v) \<Rightarrow> v | _ \<Rightarrow> [])"

definition GetBoolValue :: "attributeMap \<Rightarrow> string \<Rightarrow> bool" where
  "GetBoolValue m k = (case m k of Some (BoolValue b) \<Rightarrow> b | _ \<Rightarrow> False)"

definition HasAttribute :: "attributeMap \<Rightarrow> string \<Rightarrow> bool" where
  "HasAttribute m k = (m k \<noteq> None)"

definition UpdateAddIntValue :: "string \<Rightarrow> int \<Rightarrow> attributeMap \<Rightarrow> attributeMap" where
  "UpdateAddIntValue k v m = m(k \<mapsto> IntValue v)"

definition UpdateAddStringValue :: "string \<Rightarrow> string \<Rightarrow> attributeMap \<Rightarrow> attributeMap" where
  "UpdateAddStringValue k v m = m(k \<mapsto> StringValue v)"

definition UpdateAddBoolValue :: "string \<Rightarrow> bool \<Rightarrow> attributeMap \<Rightarrow> attributeMap" where
  "UpdateAddBoolValue k v m = m(k \<mapsto> BoolValue v)"

definition AddIntValue :: "string \<Rightarrow> int \<Rightarrow> attributeMap \<Rightarrow> attributeMap" where
  "AddIntValue k v m = m(k \<mapsto> IntValue v)"

definition AddStringValue :: "string \<Rightarrow> string \<Rightarrow> attributeMap \<Rightarrow> attributeMap" where
  "AddStringValue k v m = m(k \<mapsto> StringValue v)"

definition AddBoolValue :: "string \<Rightarrow> bool \<Rightarrow> attributeMap \<Rightarrow> attributeMap" where
  "AddBoolValue k v m = m(k \<mapsto> BoolValue v)"

definition Merge :: "attributeMap option \<Rightarrow> attributeMap \<Rightarrow> attributeMap" where
  "Merge other m = (case other of None \<Rightarrow> m | Some a \<Rightarrow> m ++ a)"

text \<open>
  The names of package \<open>constlabels\<close> and \<open>constvalues\<close>, and the protocol names of
  package \<open>protocol\<close>. Only their being pairwise different matters below.
\<close>

definition Pid :: string where "Pid = ''pid''"
definition RequestTid :: string where "RequestTid = ''request_tid''"
definition ResponseTid :: string where "ResponseTid = ''response_tid''"
definition Comm :: string where "Comm = ''comm''"
definition SrcIp :: string where "SrcIp = ''src_ip''"
definition DstIp :: string where "DstIp = ''dst_ip''"
definition SrcPort :: string where "SrcPort = ''src_port''"
definition DstPort :: string where "DstPort = ''dst_port''"
definition DnatIp :: string where "DnatIp = ''dnat_ip''"
definition DnatPort :: string where "DnatPort = ''dnat_port''"
definition ContainerId :: string where "ContainerId = ''container_id''"
definition IsError :: string where "IsError = ''is_error''"
definition ErrorType :: string where "ErrorType = ''error_type''"
definition IsSlow :: string where "IsSlow = ''is_slow''"
definition IsServer :: string where "IsServer = ''is_server''"
definition Protocol :: string where "Protocol = ''protocol''"
definition EndTimestamp :: string where "EndTimestamp = ''end_timestamp''"
definition RequestPayload :: string where "RequestPayload = ''request_payload''"
definition ResponsePayload :: string where "ResponsePayload = ''response_payload''"
definition HttpContinue :: string where "HttpContinue = ''http_continue''"
definition Oneway :: string where "Oneway = ''oneway''"
definition DnsId :: string where "DnsId = ''dns_id''"
definition DnsDomain :: string where "DnsDomain = ''dns_domain''"
definition DnsIp :: string where "DnsIp = ''dns_ip''"
definition DnsRcode :: string where "DnsRcode = ''dns_rcode''"
definition STR_EMPTY :: string where "STR_EMPTY = []"

definition ConnectTime :: string where "ConnectTime = ''connect_time''"
definition RequestSentTime :: string where "RequestSentTime = ''request_sent_time''"
definition WaitingTtfbTime :: string where "WaitingTtfbTime = ''waiting_ttfb_time''"
definition ContentDownloadTime :: string where "ContentDownloadTime = ''content_download_time''"
definition RequestTotalTime :: string where "RequestTotalTime = ''request_total_time''"
definition RequestIo :: string where "RequestIo = ''request_io''"
definition ResponseIo :: string where "ResponseIo = ''response_io''"

definition NoError :: int where "NoError = 0"
definition ConnectFail :: int where "ConnectFail = 1"
definition NoResponse :: int where "NoResponse = 2"
definition ProtocolError :: int where "ProtocolError = 3"

definition DNS :: string where "DNS = ''dns''"
definition NOSUPPORT :: string where "NOSUPPORT = ''NOSUPPORT''"

definition CACHE_ADD_THRESHOLD :: nat where "CACHE_ADD_THRESHOLD = 50"
definition CACHE_RESET_THRESHOLD :: nat where "CACHE_RESET_THRESHOLD = 5000"

subsection \<open>Events, payload messages and records\<close>

text \<open>
  \<open>model.KindlingEvent\<close>: a field for each accessor the analyzer calls. \<open>evSipList\<close>
  and \<open>evDipList\<close> are the address slices of the fd info (\<open>FdInfo.Sip\<close>), \<open>evSip\<close> and
  \<open>evDip\<close> what \<open>GetSip()\<close> and \<open>GetDip()\<close> print.
\<close>

record kindlingEvent =
  evName :: string
  evPid :: "32 word"
  evTid :: "32 word"
  evFd :: "32 word"
  evComm :: string
  evContainerId :: string
  evSip :: string
  evDip :: string
  evSipList :: "32 word list"
  evDipList :: "32 word list"
  evSport :: "32 word"
  evDport :: "32 word"
  evRole :: bool
  evIsUdp :: "32 word"
  evData :: bytes
  evDataLen :: nat
  evTimestamp :: "64 word"
  evStartTime :: "64 word"

record natTuple =
  ReplSrcIP :: string
  ReplSrcPort :: "16 word"

record payloadMessage =
  Data :: bytes
  Offset :: int
  attributes :: attributeMap

definition NewRequestMessage :: "bytes \<Rightarrow> payloadMessage" where
  "NewRequestMessage d = \<lparr>Data = d, Offset = 0, attributes = Map.empty\<rparr>"

definition NewResponseMessage :: "bytes \<Rightarrow> attributeMap \<Rightarrow> payloadMessage" where
  "NewResponseMessage d attrs = \<lparr>Data = d, Offset = 0, attributes = attrs\<rparr>"

definition GetIntAttribute :: "payloadMessage \<Rightarrow> string \<Rightarrow> int" where
  "GetIntAttribute m k = GetIntValue (attributes m) k"

definition GetStringAttribute :: "payloadMessage \<Rightarrow> string \<Rightarrow> string" where
  "GetStringAttribute m k = GetStringValue (attributes m) k"

definition AddIntAttribute :: "string \<Rightarrow> int \<Rightarrow> payloadMessage \<Rightarrow> payloadMessage" where
  "AddIntAttribute k v m = m\<lparr>attributes := AddIntValue k v (attributes m)\<rparr>"

definition AddStringAttribute :: "string \<Rightarrow> string \<Rightarrow> payloadMessage \<Rightarrow> payloadMessage" where
  "AddStringAttribute k v m = m\<lparr>attributes := AddStringValue k v (attributes m)\<rparr>"

definition AddBoolAttribute :: "string \<Rightarrow> bool \<Rightarrow> payloadMessage \<Rightarrow> payloadMessage" where
  "AddBoolAttribute k v m = m\<lparr>attributes := AddBoolValue k v (attributes m)\<rparr>"

text \<open>\<open>model.DataGroup\<close>, the output record: labels, metrics and a timestamp.\<close>

record dataGroup =
  Labels :: attributeMap
  Metrics :: "string \<rightharpoonup> int"
  Timestamp :: "64 word"

definition UpdateAddIntMetric :: "string \<Rightarrow> int \<Rightarrow> dataGroup \<Rightarrow> dataGroup" where
  "UpdateAddIntMetric k v g = g\<lparr>Metrics := (Metrics g)(k \<mapsto> v)\<rparr>"

text \<open>\<open>dataGroupPool.Get\<close> hands out a record with nothing in it.\<close>

definition poolGet :: dataGroup where
  "poolGet = \<lparr>Labels = Map.empty, Metrics = Map.empty, Timestamp = 0\<rparr>"

subsection \<open>The Events container\<close>

text \<open>
  Modelled from the spec: the Events container (\<open>events\<close>, \<open>newEvents\<close> and its
  methods) is declared outside network_analyzer.go. Sections 2 and 4.9: it keeps the
  events of one direction in arrival order, the payload bytes up to the cap
  (appends past the cap still count, their bytes are dropped), the first and the last
  timestamp, and the source port of the event it was created from.
\<close>

record events =
  event :: kindlingEvent
  merged :: "kindlingEvent list"
  edata :: bytes
  evMaxPayloadLength :: int

definition newEvents :: "kindlingEvent \<Rightarrow> int \<Rightarrow> events" where
  "newEvents evt maxLen =
     \<lparr>event = evt, merged = [], edata = take (nat maxLen) (evData evt),
      evMaxPayloadLength = maxLen\<rparr>"

definition mergeEvent :: "kindlingEvent \<Rightarrow> events \<Rightarrow> events" where
  "mergeEvent evt evts =
     evts\<lparr>merged := merged evts @ [evt],
          edata := edata evts @
            take (nat (evMaxPayloadLength evts - int (length (edata evts)))) (evData evt)\<rparr>"

definition allEvents :: "events \<Rightarrow> kindlingEvent list" where
  "allEvents evts = event evts # merged evts"

definition getData :: "events \<Rightarrow> bytes" where
  "getData evts = edata evts"

definition eventsSize :: "events \<Rightarrow> nat" where
  "eventsSize evts = length (allEvents evts)"

definition getEvent :: "events \<Rightarrow> int \<Rightarrow> error + kindlingEvent" where
  "getEvent evts i =
     (if 0 \<le> i \<and> i < int (eventsSize evts) then Inr (allEvents evts ! nat i)
      else Inl IndexOutOfRange)"

definition getFirstTimestamp :: "events \<Rightarrow> 64 word" where
  "getFirstTimestamp evts = evStartTime (event evts)"

definition getLastTimestamp :: "events \<Rightarrow> 64 word" where
  "getLastTimestamp evts = evTimestamp (last (allEvents evts))"

definition getDuration :: "events \<Rightarrow> 64 word" where
  "getDuration evts = getLastTimestamp evts - getFirstTimestamp evts"

definition IsSportChanged :: "events \<Rightarrow> kindlingEvent \<Rightarrow> bool" where
  "IsSportChanged evts newEvt = (evSport newEvt \<noteq> evSport (event evts))"

definition totalSize :: "events \<Rightarrow> nat" where
  "totalSize evts = sum_list (map evDataLen (allEvents evts))"

subsection \<open>FlowState\<close>

text \<open>
  \<open>messagePairs\<close> (the FlowState of section 3) and \<open>messagePair\<close>, the single
  request-response pair built for multi-request protocols. The mutex is left out:
  every operation below is one atomic step.
\<close>

record messagePairs =
  connects :: "events option"
  requests :: "events option"
  responses :: "events option"
  natTuple :: "natTuple option"
  sent_once :: bool
  maxPayloadLength :: int

record messagePair =
  request :: kindlingEvent
  response :: "kindlingEvent option"
  mpNatTuple :: "natTuple option"

type_synonym messagePairKey = "32 word \<times> 32 word"

definition getMessagePairKey :: "kindlingEvent \<Rightarrow> messagePairKey" where
  "getMessagePairKey evt = (evPid evt, evFd evt)"

text \<open>
  Modelled from the spec: the methods of \<open>messagePairs\<close> are declared outside
  network_analyzer.go. The key is the FlowKey \<open>(pid, fd)\<close> of the state's first
  event and the port its \<open>dport\<close> (sections 3 and 4.6); \<open>checkSend\<close> is the
  single-shot check-and-set of \<open>sent_once\<close> (sections 3, 4.6 and 5): it answers
  true exactly when the flag was still false, and leaves it true; the merges append
  the event to the buffer of its direction, creating the buffer when it is absent
  (sections 4.2 to 4.4); \<open>putRequestBack\<close> re-inserts a request buffer (section
  4.6); \<open>getTimeoutTs\<close> is the time of the state's last event, that of the last
  response when there are responses (sections 4.5 and 8), and 0 for a state with no
  event.
\<close>

definition getKey :: "messagePairs \<Rightarrow> messagePairKey" where
  "getKey mps =
     (case connects mps of
        Some c \<Rightarrow> getMessagePairKey (event c)
      | None \<Rightarrow> (case requests mps of
                   Some r \<Rightarrow> getMessagePairKey (event r)
                 | None \<Rightarrow> (0, 0)))"

definition getPort :: "messagePairs \<Rightarrow> 32 word" where
  "getPort mps =
     (case connects mps of
        Some c \<Rightarrow> evDport (event c)
      | None \<Rightarrow> (case requests mps of
                   Some r \<Rightarrow> evDport (event r)
                 | None \<Rightarrow> 0))"

definition checkSend :: "messagePairs \<Rightarrow> bool \<times> messagePairs" where
  "checkSend mps = (\<not> sent_once mps, mps\<lparr>sent_once := True\<rparr>)"

definition mergeBuffer :: "kindlingEvent \<Rightarrow> int \<Rightarrow> events option \<Rightarrow> events option" where
  "mergeBuffer evt maxLen buf =
     (case buf of None \<Rightarrow> Some (newEvents evt maxLen) | Some b \<Rightarrow> Some (mergeEvent evt b))"

definition mergeConnect :: "kindlingEvent \<Rightarrow> messagePairs \<Rightarrow> messagePairs" where
  "mergeConnect evt mps = mps\<lparr>connects := mergeBuffer evt (maxPayloadLength mps) (connects mps)\<rparr>"

definition mergeRequest :: "kindlingEvent \<Rightarrow> messagePairs \<Rightarrow> messagePairs" where
  "mergeRequest evt mps = mps\<lparr>requests := mergeBuffer evt (maxPayloadLength mps) (requests mps)\<rparr>"

definition mergeResponse :: "kindlingEvent \<Rightarrow> messagePairs \<Rightarrow> messagePairs" where
  "mergeResponse evt mps = mps\<lparr>responses := mergeBuffer evt (maxPayloadLength mps) (responses mps)\<rparr>"

definition putRequestBack :: "events option \<Rightarrow> messagePairs \<Rightarrow> messagePairs" where
  "putRequestBack reqs mps = mps\<lparr>requests := reqs\<rparr>"

definition getTimeoutTs :: "messagePairs \<Rightarrow> 64 word" where
  "getTimeoutTs mps =
     (case responses mps of
        Some r \<Rightarrow> getLastTimestamp r
      | None \<Rightarrow> (case requests mps of
                   Some q \<Rightarrow> getLastTimestamp q
                 | None \<Rightarrow> (case connects mps of
                              Some c \<Rightarrow> getLastTimestamp c
                            | None \<Rightarrow> 0)))"

text \<open>
  Modelled from the spec: the time decomposition of section 4.7, in nanoseconds on
  unsigned 64-bit timestamps.
\<close>

definition getConnectDuration :: "messagePairs \<Rightarrow> 64 word" where
  "getConnectDuration mps = (case connects mps of None \<Rightarrow> 0 | Some c \<Rightarrow> getDuration c)"

definition getSentTime :: "messagePairs \<Rightarrow> 64 word" where
  "getSentTime mps = (case requests mps of None \<Rightarrow> 0 | Some q \<Rightarrow> getDuration q)"

definition getWaitingTime :: "messagePairs \<Rightarrow> 64 word" where
  "getWaitingTime mps =
     (case (requests mps, responses mps) of
        (Some q, Some r) \<Rightarrow> getFirstTimestamp r - getLastTimestamp q
      | _ \<Rightarrow> 0)"

definition getDownloadTime :: "messagePairs \<Rightarrow> 64 word" where
  "getDownloadTime mps = (case responses mps of None \<Rightarrow> 0 | Some r \<Rightarrow> getDuration r)"

definition getPairsDuration :: "messagePairs \<Rightarrow> 64 word" where
  "getPairsDuration mps =
     (case requests mps of
        None \<Rightarrow> 0
      | Some q \<Rightarrow> (case responses mps of
                   None \<Rightarrow> getDuration q
                 | Some r \<Rightarrow> getLastTimestamp r - getFirstTimestamp q))"

definition getRquestSize :: "messagePairs \<Rightarrow> nat" where
  "getRquestSize mps = (case requests mps of None \<Rightarrow> 0 | Some q \<Rightarrow> totalSize q)"

definition getResponseSize :: "messagePairs \<Rightarrow> nat" where
  "getResponseSize mps = (case responses mps of None \<Rightarrow> 0 | Some r \<Rightarrow> totalSize r)"

subsection \<open>Parsers, configuration and the analyzer\<close>

text \<open>
  A protocol parser is an opaque plugin (section 6): its name, whether it takes the
  requests one by one, its two package parsers, which fill attributes into the
  message and say whether they claim the payload, and its pair matcher.
\<close>

record protocolParser =
  GetProtocol :: string
  MultiRequests :: bool
  ParseRequest :: "payloadMessage \<Rightarrow> bool \<times> payloadMessage"
  ParseResponse :: "payloadMessage \<Rightarrow> bool \<times> payloadMessage"
  PairMatch :: "payloadMessage list \<Rightarrow> payloadMessage \<Rightarrow> int"

record config =
  EnableConntrack :: bool
  EnableTimeoutCheck :: bool
  ConnectTimeout :: "64 word"
  FdReuseTimeout :: "64 word"
  NoResponseThreshold :: "64 word"
  ResponseSlowThreshold :: "64 word"

text \<open>
  Collaborators outside the analyzer, taken as parameters: the conntracker, the
  payload formatter of package \<open>protocol\<close>, and the duration and size helpers of a
  single \<open>messagePair\<close>.
\<close>

record externals =
  GetDNATTuple :: "32 word \<Rightarrow> 32 word \<Rightarrow> 16 word \<Rightarrow> 16 word \<Rightarrow> 32 word \<Rightarrow> natTuple option"
  GetPayloadString :: "bytes \<Rightarrow> string \<Rightarrow> string"
  pairDuration :: "messagePair \<Rightarrow> 64 word"
  pairSentTime :: "messagePair \<Rightarrow> int"
  pairWaitingTime :: "messagePair \<Rightarrow> int"
  pairDownloadTime :: "messagePair \<Rightarrow> int"
  pairRquestSize :: "messagePair \<Rightarrow> nat"
  pairResponseSize :: "messagePair \<Rightarrow> nat"

text \<open>
  The analyzer. Go pointers become references: \<open>parserRef\<close> names a parser of
  \<open>parserTable\<close>, \<open>stateRef\<close> a FlowState of \<open>heap\<close>. \<open>requestMonitor\<close> maps a
  FlowKey to the reference it stores, so that a handler and the map can hold the same
  state. \<open>cachedParsersMap\<close> and \<open>portCounts\<close> are the port cache of the parser
  factory and the per-port counters of the parsers; \<open>consumed\<close> is what the next
  consumers were given, oldest first.
\<close>

type_synonym parserRef = nat
type_synonym stateRef = nat

record networkAnalyzer =
  cfg :: config
  ext :: externals
  staticPortMap :: "32 word \<rightharpoonup> string"
  slowThresholdMap :: "string \<rightharpoonup> 64 word"
  protocolMap :: "string \<rightharpoonup> parserRef"
  parsers :: "parserRef list"
  parserTable :: "parserRef \<Rightarrow> protocolParser"
  cachedParsersMap :: "32 word \<rightharpoonup> parserRef list"
  portCounts :: "parserRef \<Rightarrow> 32 word \<Rightarrow> nat"
  requestMonitor :: "messagePairKey \<rightharpoonup> stateRef"
  heap :: "stateRef \<Rightarrow> messagePairs"
  nextRef :: stateRef
  tcpMessagePairSize :: int
  udpMessagePairSize :: int
  snaplen :: int
  consumed :: "dataGroup list"

text \<open>
  Modelled from the spec: the feedback counters of a parser and the port cache of the
  parser factory (sections 4.8 and 6) are declared outside network_analyzer.go.
  \<open>AddPortCount\<close> increments the counter of the parser for the port and returns the
  new count, \<open>ResetPort\<close> sets it back to zero; \<open>AddCachedParser\<close> installs the
  parser in the ordered list of the port unless it is there already, and
  \<open>RemoveCachedParser\<close> takes it out.
\<close>

definition AddPortCount :: "parserRef \<Rightarrow> 32 word \<Rightarrow> networkAnalyzer \<Rightarrow> nat \<times> networkAnalyzer" where
  "AddPortCount p port na =
     (let c = portCounts na p port + 1 in
      (c, na\<lparr>portCounts := (portCounts na)(p := (portCounts na p)(port := c))\<rparr>))"

definition ResetPort :: "parserRef \<Rightarrow> 32 word \<Rightarrow> networkAnalyzer \<Rightarrow> networkAnalyzer" where
  "ResetPort p port na = na\<lparr>portCounts := (portCounts na)(p := (portCounts na p)(port := 0))\<rparr>"

definition GetCachedParsersByPort :: "networkAnalyzer \<Rightarrow> 32 word \<Rightarrow> parserRef list option" where
  "GetCachedParsersByPort na port = cachedParsersMap na port"

definition AddCachedParser :: "32 word \<Rightarrow> parserRef \<Rightarrow> networkAnalyzer \<Rightarrow> networkAnalyzer" where
  "AddCachedParser port p na =
     (case cachedParsersMap na port of
        None \<Rightarrow> na\<lparr>cachedParsersMap := (cachedParsersMap na)(port \<mapsto> [p])\<rparr>
      | Some ps \<Rightarrow>
          if p \<in> set ps then na
          else na\<lparr>cachedParsersMap := (cachedParsersMap na)(port \<mapsto> ps @ [p])\<rparr>)"

definition RemoveCachedParser :: "32 word \<Rightarrow> parserRef \<Rightarrow> networkAnalyzer \<Rightarrow> networkAnalyzer" where
  "RemoveCachedParser port p na =
     (case cachedParsersMap na port of
        None \<Rightarrow> na
      | Some ps \<Rightarrow> na\<lparr>cachedParsersMap := (cachedParsersMap na)(port \<mapsto> removeAll p ps)\<rparr>)"

definition NewNetworkAnalyzer ::
  "environ \<Rightarrow> config \<Rightarrow> externals \<Rightarrow> (parserRef \<Rightarrow> protocolParser) \<Rightarrow> networkAnalyzer" where
  "NewNetworkAnalyzer env config collaborators table =
     \<lparr>cfg = config, ext = collaborators, staticPortMap = Map.empty,
      slowThresholdMap = Map.empty, protocolMap = Map.empty, parsers = [],
      parserTable = table, cachedParsersMap = Map.empty, portCounts = (\<lambda>p port. 0),
      requestMonitor = Map.empty,
      heap = (\<lambda>r. \<lparr>connects = None, requests = None, responses = None, natTuple = None,
                      sent_once = False, maxPayloadLength = 0\<rparr>),
      nextRef = 0, tcpMessagePairSize = 0, udpMessagePairSize = 0,
      snaplen = getSnaplenEnv env, consumed = []\<rparr>"

section \<open>The DNS pair matcher\<close>

text \<open>
  \<open>dnsPair\<close> of dns_parser.go: the index of the first request whose DnsId and
  DnsDomain equal the response's, and -1 when there is none. \<open>dnsPairFrom\<close> is the
  \<open>range\<close> loop, entered at index \<open>i\<close>.
\<close>

fun dnsPairFrom :: "int \<Rightarrow> payloadMessage list \<Rightarrow> payloadMessage \<Rightarrow> int" where
  "dnsPairFrom i [] respMsg = - 1"
| "dnsPairFrom i (reqMsg # reqMsgs) respMsg =
     (if GetIntAttribute reqMsg DnsId = GetIntAttribute respMsg DnsId \<and>
         GetStringAttribute reqMsg DnsDomain = GetStringAttribute respMsg DnsDomain
      then i
      else dnsPairFrom (i + 1) reqMsgs respMsg)"

definition dnsPair :: "payloadMessage list \<Rightarrow> payloadMessage \<Rightarrow> int" where
  "dnsPair reqMsgs respMsg = dnsPairFrom 0 reqMsgs respMsg"

section \<open>The record builder\<close>

definition applyAll :: "('a \<Rightarrow> 'a) list \<Rightarrow> 'a \<Rightarrow> 'a" where
  "applyAll updates x = fold (\<lambda>u. u) updates x"

definition onLabels :: "(attributeMap \<Rightarrow> attributeMap) \<Rightarrow> dataGroup \<Rightarrow> dataGroup" where
  "onLabels f g = g\<lparr>Labels := f (Labels g)\<rparr>"

definition setTimestamp :: "64 word \<Rightarrow> dataGroup \<Rightarrow> dataGroup" where
  "setTimestamp t g = g\<lparr>Timestamp := t\<rparr>"

definition getResponseSlowThreshold :: "networkAnalyzer \<Rightarrow> string \<Rightarrow> 64 word" where
  "getResponseSlowThreshold na protocol =
     (case slowThresholdMap na protocol of
        Some v \<Rightarrow> if 0 < sint v then v else ResponseSlowThreshold (cfg na)
      | None \<Rightarrow> ResponseSlowThreshold (cfg na))"

definition isSlow :: "networkAnalyzer \<Rightarrow> 64 word \<Rightarrow> string \<Rightarrow> bool" where
  "isSlow na duration protocol =
     (sint (getResponseSlowThreshold na protocol * 1000000) \<le> sint duration)"

definition addMessagePairTid :: "messagePair \<Rightarrow> attributeMap \<Rightarrow> attributeMap" where
  "addMessagePairTid mp labels =
     (let labels1 = UpdateAddIntValue RequestTid (uint (evTid (request mp))) labels in
      case response mp of
        Some r \<Rightarrow> UpdateAddIntValue ResponseTid (uint (evTid r)) labels1
      | None \<Rightarrow> UpdateAddIntValue ResponseTid 0 labels1)"

definition addMessagePairsTid :: "messagePairs \<Rightarrow> attributeMap \<Rightarrow> attributeMap" where
  "addMessagePairsTid mps labels =
     (let labels1 =
        (case requests mps of
           Some q \<Rightarrow> UpdateAddIntValue RequestTid (uint (evTid (event q))) labels
         | None \<Rightarrow> UpdateAddIntValue RequestTid 0 labels)
      in case responses mps of
           Some r \<Rightarrow> UpdateAddIntValue ResponseTid (uint (evTid (event r))) labels1
         | None \<Rightarrow> UpdateAddIntValue ResponseTid 0 labels1)"

definition addProtocolPayload ::
  "networkAnalyzer \<Rightarrow> string \<Rightarrow> bytes \<Rightarrow> bytes option \<Rightarrow> attributeMap \<Rightarrow> attributeMap" where
  "addProtocolPayload na protocolName req resp labels =
     (let labels1 =
        UpdateAddStringValue RequestPayload (GetPayloadString (ext na) req protocolName) labels
      in case resp of
           Some r \<Rightarrow>
             UpdateAddStringValue ResponsePayload (GetPayloadString (ext na) r protocolName) labels1
         | None \<Rightarrow> UpdateAddStringValue ResponsePayload [] labels1)"

text \<open>
  The closing error check of \<open>getRecords\<close> and \<open>getRecordWithSinglePair\<close>: "if no
  protocol error found, we check other errors".
\<close>

definition checkOtherErrors :: "bool \<Rightarrow> attributeMap \<Rightarrow> attributeMap" where
  "checkOtherErrors noResponse labels =
     (if \<not> GetBoolValue labels IsError \<and> noResponse
      then AddIntValue ErrorType NoResponse (AddBoolValue IsError True labels)
      else labels)"

definition addNatTuple :: "natTuple option \<Rightarrow> attributeMap \<Rightarrow> attributeMap" where
  "addNatTuple nt labels =
     (case nt of
        Some t \<Rightarrow>
          UpdateAddIntValue DnatPort (uint (ReplSrcPort t))
            (UpdateAddStringValue DnatIp (ReplSrcIP t) labels)
      | None \<Rightarrow> labels)"

text \<open>
  \<open>getConnectFailRecords\<close>. It reads \<open>mps.connects.event\<close>, which panics on a state
  without connects.
\<close>

definition getConnectFailRecords :: "messagePairs \<Rightarrow> error + dataGroup list" where
  "getConnectFailRecords mps =
     (case connects mps of
        None \<Rightarrow> Inl NilPointerDereference
      | Some c \<Rightarrow>
          (let evt = event c in
           Inr [applyAll
             [UpdateAddIntMetric ConnectTime (sint (getDuration c)),
              UpdateAddIntMetric RequestTotalTime (sint (getDuration c)),
              onLabels (UpdateAddIntValue Pid (uint (evPid evt))),
              onLabels (UpdateAddIntValue RequestTid 0),
              onLabels (UpdateAddIntValue ResponseTid 0),
              onLabels (UpdateAddStringValue Comm (evComm evt)),
              onLabels (UpdateAddStringValue SrcIp (evSip evt)),
              onLabels (UpdateAddStringValue DstIp (evDip evt)),
              onLabels (UpdateAddIntValue SrcPort (uint (evSport evt))),
              onLabels (UpdateAddIntValue DstPort (uint (evDport evt))),
              onLabels (UpdateAddStringValue DnatIp STR_EMPTY),
              onLabels (UpdateAddIntValue DnatPort (- 1)),
              onLabels (UpdateAddStringValue ContainerId (evContainerId evt)),
              onLabels (UpdateAddBoolValue IsError True),
              onLabels (UpdateAddIntValue ErrorType ConnectFail),
              onLabels (UpdateAddBoolValue IsSlow False),
              onLabels (UpdateAddBoolValue IsServer (evRole evt)),
              setTimestamp (evStartTime evt)]
             poolGet]))"

text \<open>
  The labels \<open>getRecords\<close> writes before it merges the parser's attributes, in the
  order of the source.
\<close>

definition recordLabels ::
  "kindlingEvent \<Rightarrow> (attributeMap \<Rightarrow> attributeMap) \<Rightarrow> bool \<Rightarrow> string \<Rightarrow> attributeMap \<Rightarrow> attributeMap" where
  "recordLabels evt addTid slow protocol =
     applyAll
       [UpdateAddIntValue Pid (uint (evPid evt)),
        addTid,
        UpdateAddStringValue Comm (evComm evt),
        UpdateAddStringValue SrcIp (evSip evt),
        UpdateAddStringValue DstIp (evDip evt),
        UpdateAddIntValue SrcPort (uint (evSport evt)),
        UpdateAddIntValue DstPort (uint (evDport evt)),
        UpdateAddStringValue DnatIp STR_EMPTY,
        UpdateAddIntValue DnatPort (- 1),
        UpdateAddStringValue ContainerId (evContainerId evt),
        UpdateAddBoolValue IsError False,
        UpdateAddIntValue ErrorType NoError,
        UpdateAddBoolValue IsSlow slow,
        UpdateAddBoolValue IsServer (evRole evt),
        UpdateAddStringValue Protocol protocol]"

text \<open>
  \<open>getRecords\<close>. With the HttpContinue attribute it puts the request buffer back
  into the state the map holds under the key of the first request and returns an
  empty, non-nil list; otherwise it builds one record. \<open>mps.getDuration()\<close> is
  \<open>getPairsDuration\<close> here. It reads \<open>mps.requests.event\<close>, which panics on a state
  without requests.
\<close>

definition getRecords ::
  "networkAnalyzer \<Rightarrow> stateRef \<Rightarrow> string \<Rightarrow> attributeMap option
     \<Rightarrow> error + (dataGroup list \<times> networkAnalyzer)" where
  "getRecords na ref protocol attrs =
     (let mps = heap na ref in
      case requests mps of
        None \<Rightarrow> Inl NilPointerDereference
      | Some reqs \<Rightarrow>
          (let evt = event reqs in
           if (case attrs of None \<Rightarrow> False | Some a \<Rightarrow> HasAttribute a HttpContinue) then
             (case requestMonitor na (getMessagePairKey evt) of
                Some oldRef \<Rightarrow>
                  Inr ([], na\<lparr>heap := (heap na)
                             (oldRef := putRequestBack (requests mps) (heap na oldRef))\<rparr>)
              | None \<Rightarrow> Inr ([], na))
           else
             (let slow = (if responses mps \<noteq> None
                          then isSlow na (getPairsDuration mps) protocol else False)
              in Inr ([applyAll
                   [onLabels (recordLabels evt (addMessagePairsTid mps) slow protocol),
                    onLabels (Merge attrs),
                    onLabels (case responses mps of
                                Some r \<Rightarrow> UpdateAddIntValue EndTimestamp (sint (getLastTimestamp r))
                              | None \<Rightarrow> (\<lambda>labels. labels)),
                    onLabels (case responses mps of
                                None \<Rightarrow> addProtocolPayload na protocol (getData reqs) None
                              | Some r \<Rightarrow>
                                  addProtocolPayload na protocol (getData reqs) (Some (getData r))),
                    onLabels (checkOtherErrors (responses mps = None)),
                    onLabels (addNatTuple (natTuple mps)),
                    UpdateAddIntMetric ConnectTime (sint (getConnectDuration mps)),
                    UpdateAddIntMetric RequestSentTime (sint (getSentTime mps)),
                    UpdateAddIntMetric WaitingTtfbTime (sint (getWaitingTime mps)),
                    UpdateAddIntMetric ContentDownloadTime (sint (getDownloadTime mps)),
                    UpdateAddIntMetric RequestTotalTime
                      (sint (getConnectDuration mps + getPairsDuration mps)),
                    UpdateAddIntMetric RequestIo (int (getRquestSize mps)),
                    UpdateAddIntMetric ResponseIo (int (getResponseSize mps)),
                    setTimestamp (evStartTime evt)]
                   poolGet], na))))"

text \<open>
  \<open>getRecordWithSinglePair\<close>: the record of one request and its response, if any.
\<close>

definition getRecordWithSinglePair ::
  "networkAnalyzer \<Rightarrow> messagePair \<Rightarrow> string \<Rightarrow> attributeMap \<Rightarrow> dataGroup" where
  "getRecordWithSinglePair na mp protocol attrs =
     (let evt = request mp;
          slow = isSlow na (pairDuration (ext na) mp) protocol
      in applyAll
           [onLabels (recordLabels evt (addMessagePairTid mp) slow protocol),
            onLabels (Merge (Some attrs)),
            onLabels (case response mp of
                        Some r \<Rightarrow> UpdateAddIntValue EndTimestamp (sint (evTimestamp r))
                      | None \<Rightarrow> (\<lambda>labels. labels)),
            onLabels (case response mp of
                        None \<Rightarrow> addProtocolPayload na protocol (evData evt) None
                      | Some r \<Rightarrow> addProtocolPayload na protocol (evData evt) (Some (evData r))),
            onLabels (checkOtherErrors (response mp = None)),
            onLabels (addNatTuple (mpNatTuple mp)),
            UpdateAddIntMetric ConnectTime 0,
            UpdateAddIntMetric RequestSentTime (pairSentTime (ext na) mp),
            UpdateAddIntMetric WaitingTtfbTime (pairWaitingTime (ext na) mp),
            UpdateAddIntMetric ContentDownloadTime (pairDownloadTime (ext na) mp),
            UpdateAddIntMetric RequestTotalTime (sint (pairDuration (ext na) mp)),
            UpdateAddIntMetric RequestIo (int (pairRquestSize (ext na) mp)),
            UpdateAddIntMetric ResponseIo (int (pairResponseSize (ext na) mp)),
            setTimestamp (evStartTime evt)]
           poolGet)"

section \<open>Protocol resolution\<close>

text \<open>
  \<open>parseMultipleRequests\<close>, used for parsers that declare \<open>MultiRequests\<close>. Its
  three loops run over the indices of the buffers and fetch event \<open>i\<close> with
  \<open>getEvent\<close>; here they run over the events in the same order. A result \<open>None\<close>
  is Go's nil slice: the parser does not claim the state.
\<close>

fun parseRequestMsgs :: "protocolParser \<Rightarrow> kindlingEvent list \<Rightarrow> payloadMessage list option" where
  "parseRequestMsgs parser [] = Some []"
| "parseRequestMsgs parser (req # reqs) =
     (let (ok, requestMsg) = ParseRequest parser (NewRequestMessage (evData req)) in
      if \<not> ok then None
      else (case parseRequestMsgs parser reqs of
              None \<Rightarrow> None
            | Some msgs \<Rightarrow> Some (requestMsg # msgs)))"

fun matchResponses ::
  "networkAnalyzer \<Rightarrow> protocolParser \<Rightarrow> natTuple option \<Rightarrow> events \<Rightarrow> payloadMessage list
     \<Rightarrow> kindlingEvent list \<Rightarrow> (int \<rightharpoonup> bool) \<Rightarrow> dataGroup list
     \<Rightarrow> error + ((int \<rightharpoonup> bool) \<times> dataGroup list) option" where
  "matchResponses na parser nt reqs parsedReqMsgs [] matchedRequestIdx records =
     Inr (Some (matchedRequestIdx, records))"
| "matchResponses na parser nt reqs parsedReqMsgs (resp # resps) matchedRequestIdx records =
     (let (ok, responseMsg) = ParseResponse parser (NewResponseMessage (evData resp) Map.empty) in
      if \<not> ok then Inr None
      else
        (let matchIdx = PairMatch parser parsedReqMsgs responseMsg in
         if matchIdx = - 1 then Inr None
         else
           (case getEvent reqs matchIdx of
              Inl e \<Rightarrow> Inl e
            | Inr req \<Rightarrow>
                matchResponses na parser nt reqs parsedReqMsgs resps
                  (matchedRequestIdx(matchIdx \<mapsto> True))
                  (records @
                     [getRecordWithSinglePair na
                        \<lparr>request = req, response = Some resp, mpNatTuple = nt\<rparr>
                        (GetProtocol parser) (attributes responseMsg)]))))"

fun noResponseRecords ::
  "networkAnalyzer \<Rightarrow> protocolParser \<Rightarrow> natTuple option \<Rightarrow> (int \<rightharpoonup> bool) \<Rightarrow> int
     \<Rightarrow> (kindlingEvent \<times> payloadMessage) list \<Rightarrow> dataGroup list" where
  "noResponseRecords na parser nt matchedRequestIdx i [] = []"
| "noResponseRecords na parser nt matchedRequestIdx i ((req, requestMsg) # rest) =
     (if matchedRequestIdx i = None
      then [getRecordWithSinglePair na
              \<lparr>request = req, response = None, mpNatTuple = nt\<rparr>
              (GetProtocol parser) (attributes requestMsg)]
      else [])
     @ noResponseRecords na parser nt matchedRequestIdx (i + 1) rest"

definition parseMultipleRequests ::
  "networkAnalyzer \<Rightarrow> stateRef \<Rightarrow> parserRef \<Rightarrow> error + dataGroup list option" where
  "parseMultipleRequests na ref pr =
     (let mps = heap na ref; parser = parserTable na pr in
      case requests mps of
        None \<Rightarrow> Inl NilPointerDereference
      | Some reqs \<Rightarrow>
          (case parseRequestMsgs parser (allEvents reqs) of
             None \<Rightarrow> Inr None
           | Some parsedReqMsgs \<Rightarrow>
               (case responses mps of
                  None \<Rightarrow>
                    Inr (Some (noResponseRecords na parser (natTuple mps) Map.empty 0
                                 (zip (allEvents reqs) parsedReqMsgs)))
                | Some resps \<Rightarrow>
                    (case matchResponses na parser (natTuple mps) reqs parsedReqMsgs
                            (allEvents resps) Map.empty [] of
                       Inl e \<Rightarrow> Inl e
                     | Inr None \<Rightarrow> Inr None
                     | Inr (Some (matchedRequestIdx, records)) \<Rightarrow>
                         Inr (Some (records @
                                noResponseRecords na parser (natTuple mps) matchedRequestIdx 0
                                  (zip (allEvents reqs) parsedReqMsgs)))))))"

text \<open>
  \<open>parseProtocol\<close>: one parser tried on one state. The answer is nil (\<open>None\<close>) when
  the parser rejects the state, and a list, possibly empty, when it claims it.
\<close>

definition claimed ::
  "error + (dataGroup list \<times> networkAnalyzer) \<Rightarrow> error + (dataGroup list option \<times> networkAnalyzer)" where
  "claimed r = (case r of Inl e \<Rightarrow> Inl e | Inr (records, na) \<Rightarrow> Inr (Some records, na))"

definition parseProtocol ::
  "networkAnalyzer \<Rightarrow> stateRef \<Rightarrow> parserRef \<Rightarrow> error + (dataGroup list option \<times> networkAnalyzer)" where
  "parseProtocol na ref pr =
     (let mps = heap na ref; parser = parserTable na pr in
      if MultiRequests parser then
        (case parseMultipleRequests na ref pr of
           Inl e \<Rightarrow> Inl e
         | Inr records \<Rightarrow> Inr (records, na))
      else
        (case requests mps of
           None \<Rightarrow> Inl NilPointerDereference
         | Some reqs \<Rightarrow>
             (let (ok, requestMsg) = ParseRequest parser (NewRequestMessage (getData reqs)) in
              if \<not> ok then Inr (None, na)
              else
                (case responses mps of
                   None \<Rightarrow>
                     if GetBoolValue (attributes requestMsg) Oneway then Inr (Some [], na)
                     else claimed (getRecords na ref (GetProtocol parser)
                                     (Some (attributes requestMsg)))
                 | Some resps \<Rightarrow>
                     (let (ok2, responseMsg) =
                        ParseResponse parser
                          (NewResponseMessage (getData resps) (attributes requestMsg))
                      in if \<not> ok2 then Inr (None, na)
                         else claimed (getRecords na ref (GetProtocol parser)
                                         (Some (attributes responseMsg))))))))"

text \<open>
  The two loops of \<open>parseProtocols\<close>: over the parsers cached for the port (step 2)
  and over all parsers (step 3). Each stops at the first parser that claims the state.
\<close>

fun tryCachedParsers ::
  "networkAnalyzer \<Rightarrow> stateRef \<Rightarrow> 32 word \<Rightarrow> parserRef list
     \<Rightarrow> error + (dataGroup list option \<times> networkAnalyzer)" where
  "tryCachedParsers na ref port [] = Inr (None, na)"
| "tryCachedParsers na ref port (parser # rest) =
     (case parseProtocol na ref parser of
        Inl e \<Rightarrow> Inl e
      | Inr (Some records, na1) \<Rightarrow>
          if NOSUPPORT = GetProtocol (parserTable na1 parser) then
            (let (c, na2) = AddPortCount parser port na1 in
             if c = CACHE_RESET_THRESHOLD
             then Inr (Some records, RemoveCachedParser port parser (ResetPort parser port na2))
             else Inr (Some records, na2))
          else Inr (Some records, na1)
      | Inr (None, na1) \<Rightarrow> tryCachedParsers na1 ref port rest)"

fun tryAllParsers ::
  "networkAnalyzer \<Rightarrow> stateRef \<Rightarrow> 32 word \<Rightarrow> parserRef list
     \<Rightarrow> error + (dataGroup list option \<times> networkAnalyzer)" where
  "tryAllParsers na ref port [] = Inr (None, na)"
| "tryAllParsers na ref port (parser # rest) =
     (case parseProtocol na ref parser of
        Inl e \<Rightarrow> Inl e
      | Inr (Some records, na1) \<Rightarrow>
          (let (c, na2) = AddPortCount parser port na1 in
           if c = CACHE_ADD_THRESHOLD
           then Inr (Some records, AddCachedParser port parser na2)
           else Inr (Some records, na2))
      | Inr (None, na1) \<Rightarrow> tryAllParsers na1 ref port rest)"

definition connectFail ::
  "networkAnalyzer \<Rightarrow> messagePairs \<Rightarrow> error + (dataGroup list \<times> networkAnalyzer)" where
  "connectFail na mps =
     (case getConnectFailRecords mps of Inl e \<Rightarrow> Inl e | Inr records \<Rightarrow> Inr (records, na))"

definition parseProtocols ::
  "networkAnalyzer \<Rightarrow> stateRef \<Rightarrow> error + (dataGroup list \<times> networkAnalyzer)" where
  "parseProtocols na ref =
     (let mps = heap na ref; port = getPort mps in
      case staticPortMap na port of
        Some staticProtocol \<Rightarrow>
          if requests mps = None then connectFail na mps
          else
            (case protocolMap na staticProtocol of
               Some parser \<Rightarrow>
                 (case parseProtocol na ref parser of
                    Inl e \<Rightarrow> Inl e
                  | Inr (Some records, na1) \<Rightarrow> Inr (records, na1)
                  | Inr (None, na1) \<Rightarrow> getRecords na1 ref staticProtocol None)
             | None \<Rightarrow> getRecords na ref staticProtocol None)
      | None \<Rightarrow>
          if requests mps = None then connectFail na mps
          else
            (case tryCachedParsers na ref port
                    (case GetCachedParsersByPort na port of None \<Rightarrow> [] | Some ps \<Rightarrow> ps) of
               Inl e \<Rightarrow> Inl e
             | Inr (Some records, na1) \<Rightarrow> Inr (records, na1)
             | Inr (None, na1) \<Rightarrow>
                 (case tryAllParsers na1 ref port (parsers na1) of
                    Inl e \<Rightarrow> Inl e
                  | Inr (Some records, na2) \<Rightarrow> Inr (records, na2)
                  | Inr (None, na2) \<Rightarrow> getRecords na2 ref NOSUPPORT None)))"

section \<open>The record emitter and the handlers\<close>

definition distributeRecords :: "dataGroup list \<Rightarrow> networkAnalyzer \<Rightarrow> networkAnalyzer" where
  "distributeRecords records na = na\<lparr>consumed := consumed na @ records\<rparr>"

definition recordMessagePairSize :: "kindlingEvent \<Rightarrow> int \<Rightarrow> networkAnalyzer \<Rightarrow> networkAnalyzer" where
  "recordMessagePairSize evt n na =
     (if evIsUdp evt = 1 then na\<lparr>udpMessagePairSize := udpMessagePairSize na + n\<rparr>
      else na\<lparr>tcpMessagePairSize := tcpMessagePairSize na + n\<rparr>)"

text \<open>
  The conntrack step of \<open>distributeTraceMetric\<close>: \<open>Sip[0]\<close> and \<open>Dip[0]\<close> panic on an
  empty address slice; the ports are cut to 16 bits.
\<close>

definition relateConntrack :: "kindlingEvent \<Rightarrow> stateRef \<Rightarrow> networkAnalyzer \<Rightarrow> error + networkAnalyzer" where
  "relateConntrack queryEvt oldRef na =
     (if EnableConntrack (cfg na) then
        (case (evSipList queryEvt, evDipList queryEvt) of
           (srcIP # _, dstIP # _) \<Rightarrow>
             (case GetDNATTuple (ext na) srcIP dstIP (ucast (evSport queryEvt))
                     (ucast (evDport queryEvt)) (evIsUdp queryEvt) of
                Some t \<Rightarrow> Inr (na\<lparr>heap := (heap na)(oldRef := (heap na oldRef)\<lparr>natTuple := Some t\<rparr>)\<rparr>)
              | None \<Rightarrow> Inr na)
         | _ \<Rightarrow> Inl IndexOutOfRange)
      else Inr na)"

text \<open>
  \<open>distributeTraceMetric\<close>. The Go function returns nil on every path; the model
  returns what it handed to \<open>distributeRecords\<close>, and \<open>None\<close> when it returned
  before the record emitter was reached.
\<close>

definition distributeTraceMetric ::
  "networkAnalyzer \<Rightarrow> stateRef \<Rightarrow> stateRef option
     \<Rightarrow> error + (dataGroup list option \<times> networkAnalyzer)" where
  "distributeTraceMetric na oldRef newRef =
     (let oldPairs = heap na oldRef in
      case (case connects oldPairs of
              Some c \<Rightarrow> Some (event c)
            | None \<Rightarrow> (case requests oldPairs of Some q \<Rightarrow> Some (event q) | None \<Rightarrow> None)) of
        None \<Rightarrow> Inr (None, na)
      | Some queryEvt \<Rightarrow>
          (let (send, oldPairs1) = checkSend oldPairs;
               na1 = na\<lparr>heap := (heap na)(oldRef := oldPairs1)\<rparr>
           in if \<not> send then Inr (None, na1)
              else
                (let na2 =
                   (case newRef of
                      Some r \<Rightarrow> na1\<lparr>requestMonitor := (requestMonitor na1)(getKey (heap na1 r) \<mapsto> r)\<rparr>
                    | None \<Rightarrow>
                        (let na' = recordMessagePairSize queryEvt (- 1) na1 in
                         na'\<lparr>requestMonitor := (requestMonitor na')(getKey (heap na' oldRef) := None)\<rparr>))
                 in case relateConntrack queryEvt oldRef na2 of
                      Inl e \<Rightarrow> Inl e
                    | Inr na3 \<Rightarrow>
                        (case parseProtocols na3 oldRef of
                           Inl e \<Rightarrow> Inl e
                         | Inr (records, na4) \<Rightarrow>
                             Inr (Some records, distributeRecords records na4)))))"

text \<open>
  \<open>analyseRequest\<close>: the new single-request state is allocated first, then stored
  only if the key is free (\<open>LoadOrStore\<close>).
\<close>

definition newRequestPairs :: "networkAnalyzer \<Rightarrow> kindlingEvent \<Rightarrow> messagePairs" where
  "newRequestPairs na evt =
     \<lparr>connects = None, requests = Some (newEvents evt (snaplen na)), responses = None,
      natTuple = None, sent_once = False, maxPayloadLength = snaplen na\<rparr>"

definition allocate :: "messagePairs \<Rightarrow> networkAnalyzer \<Rightarrow> stateRef \<times> networkAnalyzer" where
  "allocate mps na = (nextRef na, na\<lparr>heap := (heap na)(nextRef na := mps), nextRef := nextRef na + 1\<rparr>)"

definition analyseRequest :: "networkAnalyzer \<Rightarrow> kindlingEvent \<Rightarrow> error + networkAnalyzer" where
  "analyseRequest na0 evt =
     (let (newRef, na) = allocate (newRequestPairs na0 evt) na0;
          mps = heap na newRef
      in case requestMonitor na (getKey mps) of
           None \<Rightarrow>
             Inr (recordMessagePairSize evt 1
                    (na\<lparr>requestMonitor := (requestMonitor na)(getKey mps \<mapsto> newRef)\<rparr>))
         | Some oldRef \<Rightarrow>
             (let oldPairs = heap na oldRef in
              case requests oldPairs of
                None \<Rightarrow>
                  if connects oldPairs = None
                  then Inr (na\<lparr>requestMonitor := (requestMonitor na)(getKey mps \<mapsto> newRef)\<rparr>)
                  else
                    (let merged = mergeRequest evt oldPairs in
                     Inr (na\<lparr>heap := (heap na)(oldRef := merged),
                              requestMonitor := (requestMonitor na)(getKey merged \<mapsto> oldRef)\<rparr>))
              | Some oldRequests \<Rightarrow>
                  if responses oldPairs \<noteq> None \<or> IsSportChanged oldRequests evt
                  then (case distributeTraceMetric na oldRef (Some newRef) of
                          Inl e \<Rightarrow> Inl e
                        | Inr (emitted, na1) \<Rightarrow> Inr na1)
                  else Inr (na\<lparr>heap := (heap na)(oldRef := mergeRequest evt oldPairs)\<rparr>)))"

section \<open>The timeout sweeper\<close>

text \<open>
  The body of the \<open>requestMonitor.Range\<close> callback of \<open>consumerFdNoReusingTrace\<close>,
  for the time \<open>now\<close> (\<open>time.Now().UnixNano()\<close>, signed nanoseconds). The seconds are
  taken by signed division (rounding towards zero) of each time, read as a signed
  64-bit number, before the subtraction. \<open>sweepDecision\<close>
  names the branch the callback takes.
\<close>

datatype sweepBranch = NoFdReuseRequest | NoResponseRequest | KeepState

definition idleSeconds :: "64 word \<Rightarrow> 64 word \<Rightarrow> 64 word" where
  "idleSeconds now timeoutTs =
     word_of_int (sint now sdiv 1000000000) - word_of_int (sint timeoutTs sdiv 1000000000)"

definition sweepDecision :: "config \<Rightarrow> 64 word \<Rightarrow> messagePairs \<Rightarrow> sweepBranch" where
  "sweepDecision c now mps =
     (let timeoutTs = getTimeoutTs mps in
      if timeoutTs \<noteq> 0 then
        (let duration = idleSeconds now timeoutTs in
         if responses mps \<noteq> None \<and> sint (FdReuseTimeout c) \<le> sint duration
         then NoFdReuseRequest
         else if sint (NoResponseThreshold c) \<le> sint duration then NoResponseRequest
         else KeepState)
      else KeepState)"

definition sweepState :: "64 word \<Rightarrow> stateRef \<Rightarrow> networkAnalyzer \<Rightarrow> error + networkAnalyzer" where
  "sweepState now ref na =
     (case sweepDecision (cfg na) now (heap na ref) of
        KeepState \<Rightarrow> Inr na
      | _ \<Rightarrow> (case distributeTraceMetric na ref None of
                 Inl e \<Rightarrow> Inl e
               | Inr (emitted, na1) \<Rightarrow> Inr na1))"

text \<open>
  One tick over the states the map held when the iteration began, in the order
  \<open>Range\<close> visits them.
\<close>

fun sweepRequestMonitor :: "64 word \<Rightarrow> stateRef list \<Rightarrow> networkAnalyzer \<Rightarrow> error + networkAnalyzer" where
  "sweepRequestMonitor now [] na = Inr na"
| "sweepRequestMonitor now (ref # refs) na =
     (case sweepState now ref na of
        Inl e \<Rightarrow> Inl e
      | Inr na1 \<Rightarrow> sweepRequestMonitor now refs na1)"

text \<open>
  A sequence of flushes, each of some state with or without a replacement, as the
  router (\<open>Some\<close> replacement) and the sweeper (\<open>None\<close>) issue them. \<open>emissionsOf\<close>
  counts the flushes of state \<open>ref\<close> that reached the record emitter.
\<close>

fun emissionsOf ::
  "stateRef \<Rightarrow> (stateRef \<times> stateRef option) list \<Rightarrow> networkAnalyzer
     \<Rightarrow> nat \<times> (error + networkAnalyzer)" where
  "emissionsOf ref [] na = (0, Inr na)"
| "emissionsOf ref ((oldRef, newRef) # flushes) na =
     (case distributeTraceMetric na oldRef newRef of
        Inl e \<Rightarrow> (0, Inl e)
      | Inr (emitted, na1) \<Rightarrow>
          (let (n, r) = emissionsOf ref flushes na1 in
           ((if oldRef = ref \<and> emitted \<noteq> None then n + 1 else n), r)))"

section \<open>The DNS parser\<close>

text \<open>
  The byte readers of \<open>protocol.PayloadMessage\<close> and \<open>unpackDomainName\<close> are declared
  outside the DNS files at hand and are taken as parameters. Each returns its values
  together with a flag that is true when the Go error is nil.
\<close>

record dnsReader =
  ReadUInt16 :: "payloadMessage \<Rightarrow> int \<Rightarrow> 16 word \<times> bool"
  ReadBytes :: "payloadMessage \<Rightarrow> int \<Rightarrow> int \<Rightarrow> int \<times> bytes \<times> bool"
  IsComplete :: "payloadMessage \<Rightarrow> bool"
  unpackDomainName :: "bytes \<Rightarrow> int \<Rightarrow> string \<times> int \<times> bool"
  ipString :: "bytes \<Rightarrow> string"

definition DNSHeaderSize :: nat where "DNSHeaderSize = 12"

definition TypeA :: "16 word" where "TypeA = 1"

definition fastfailDnsRequest :: "payloadMessage \<Rightarrow> bool" where
  "fastfailDnsRequest message = (length (Data message) \<le> DNSHeaderSize)"

definition fastfailDnsResponse :: "payloadMessage \<Rightarrow> bool" where
  "fastfailDnsResponse message = (length (Data message) \<le> DNSHeaderSize)"

text \<open>
  \<open>readQuery\<close>: the loop over the questions, with \<open>n\<close> of them left; \<open>None\<close> is
  either of its two errors. The message offset is written only on the way out.
\<close>

fun readQueryLoop ::
  "dnsReader \<Rightarrow> payloadMessage \<Rightarrow> nat \<Rightarrow> string \<Rightarrow> int \<Rightarrow> (string \<times> int) option" where
  "readQueryLoop h message 0 domain offset = Some (domain, offset)"
| "readQueryLoop h message (Suc n) domain offset =
     (if IsComplete h message then None
      else
        (let (name, offset1, ok) = unpackDomainName h (Data message) offset in
         if \<not> ok \<or> int (length (Data message)) \<le> offset1 then None
         else readQueryLoop h message n (if length domain = 0 then name else domain)
                (offset1 + 4)))"

definition readQuery ::
  "dnsReader \<Rightarrow> payloadMessage \<Rightarrow> 16 word \<Rightarrow> (string \<times> payloadMessage) option" where
  "readQuery h message queryCount =
     (case readQueryLoop h message (unat queryCount) [] (Offset message + 12) of
        None \<Rightarrow> None
      | Some (domain, offset) \<Rightarrow> Some (domain, message\<lparr>Offset := offset\<rparr>))"

text \<open>\<open>readIpV4Answer\<close>: the loop over the answers leaves at the first read error.\<close>

fun readAnswers ::
  "dnsReader \<Rightarrow> payloadMessage \<Rightarrow> nat \<Rightarrow> int \<Rightarrow> string list \<Rightarrow> int \<times> string list" where
  "readAnswers h message 0 offset ips = (offset, ips)"
| "readAnswers h message (Suc n) offset ips =
     (let offset1 = offset + 2;
          (aType, ok1) = ReadUInt16 h message offset1
      in if \<not> ok1 then (offset1, ips)
         else
           (let offset2 = offset1 + 8;
                (len, ok2) = ReadUInt16 h message offset2
            in if \<not> ok2 then (offset2, ips)
               else
                 (let offset3 = offset2 + 2 in
                  if aType = TypeA then
                    (let (offset4, ip, ok3) = ReadBytes h message offset3 (uint len) in
                     if \<not> ok3 then (offset4, ips)
                     else readAnswers h message n (offset4 + uint len) (ips @ [ipString h ip]))
                  else readAnswers h message n (offset3 + uint len) ips)))"

fun joinComma :: "string list \<Rightarrow> string" where
  "joinComma [] = []"
| "joinComma [x] = x"
| "joinComma (x # y # ys) = x @ '','' @ joinComma (y # ys)"

definition readIpV4Answer ::
  "dnsReader \<Rightarrow> payloadMessage \<Rightarrow> 16 word \<Rightarrow> string \<times> payloadMessage" where
  "readIpV4Answer h message answerCount =
     (let (offset, ips) = readAnswers h message (unat answerCount) (Offset message) [] in
      (if length ips = 0 then [] else joinComma ips, message\<lparr>Offset := offset\<rparr>))"

text \<open>
  \<open>parseDnsResponse\<close> and \<open>parseDnsRequest\<close>. The result pairs the two booleans the
  Go functions return with the message as they leave it.
\<close>

definition parseDnsResponse ::
  "dnsReader \<Rightarrow> payloadMessage \<Rightarrow> (bool \<times> bool) \<times> payloadMessage" where
  "parseDnsResponse h message =
     (let offset = Offset message;
          id = fst (ReadUInt16 h message offset);
          flags = fst (ReadUInt16 h message (offset + 2));
          rcode = flags AND 0xf;
          numOfQuestions = fst (ReadUInt16 h message (offset + 4));
          numOfAnswers = fst (ReadUInt16 h message (offset + 6))
      in if numOfQuestions = 0 then ((False, True), message)
         else
           (case readQuery h message numOfQuestions of
              None \<Rightarrow> ((False, True), message)
            | Some (domain, message1) \<Rightarrow>
                (let (ip, message2) = readIpV4Answer h message1 numOfAnswers;
                     message3 = AddStringAttribute DnsDomain domain message2;
                     message4 = (if 0 < length ip then AddStringAttribute DnsIp ip message3
                                 else message3);
                     message5 = AddIntAttribute DnsId (uint id) message4;
                     message6 = AddIntAttribute DnsRcode (uint rcode) message5;
                     message7 =
                       (if 0 < rcode
                        then AddIntAttribute ErrorType ProtocolError
                               (AddBoolAttribute IsError True message6)
                        else message6)
                 in ((True, True), message7))))"

definition parseTcpDnsResponse ::
  "dnsReader \<Rightarrow> payloadMessage \<Rightarrow> (bool \<times> bool) \<times> payloadMessage" where
  "parseTcpDnsResponse h message = parseDnsResponse h (message\<lparr>Offset := Offset message + 2\<rparr>)"

definition parseUdpDnsResponse ::
  "dnsReader \<Rightarrow> payloadMessage \<Rightarrow> (bool \<times> bool) \<times> payloadMessage" where
  "parseUdpDnsResponse h message = parseDnsResponse h message"

definition parseDnsRequest ::
  "dnsReader \<Rightarrow> payloadMessage \<Rightarrow> (bool \<times> bool) \<times> payloadMessage" where
  "parseDnsRequest h message =
     (let offset = Offset message;
          id = fst (ReadUInt16 h message offset);
          numOfQuestions = fst (ReadUInt16 h message (offset + 4))
      in if numOfQuestions = 0 then ((False, True), message)
         else
           (case readQuery h message numOfQuestions of
              None \<Rightarrow> ((False, True), message)
            | Some (domain, message1) \<Rightarrow>
                ((True, True),
                 AddStringAttribute DnsDomain domain (AddIntAttribute DnsId (uint id) message1))))"

definition parseTcpDnsRequest ::
  "dnsReader \<Rightarrow> payloadMessage \<Rightarrow> (bool \<times> bool) \<times> payloadMessage" where
  "parseTcpDnsRequest h message = parseDnsRequest h (message\<lparr>Offset := Offset message + 2\<rparr>)"

text \<open>
  Modelled from the spec: \<open>protocol.CreatePkgParser\<close> and \<open>protocol.NewProtocolParser\<close>
  are declared outside the DNS files. By the parser contract of section 6 a package
  parser rejects the message when \<open>fast_fail\<close> says so and otherwise claims it when
  \<open>parse_pkg\<close> reports success; by section 4.6 the DNS parser over TCP is the
  multi-request parser, with \<open>dnsPair\<close> as its matcher.
\<close>

definition CreatePkgParser ::
  "(payloadMessage \<Rightarrow> bool) \<Rightarrow> (payloadMessage \<Rightarrow> (bool \<times> bool) \<times> payloadMessage)
     \<Rightarrow> payloadMessage \<Rightarrow> bool \<times> payloadMessage" where
  "CreatePkgParser fastFail parsePkg message =
     (if fastFail message then (False, message)
      else (let ((success, complete), message1) = parsePkg message in (success, message1)))"

definition NewTcpDnsParser :: "dnsReader \<Rightarrow> protocolParser" where
  "NewTcpDnsParser h =
     \<lparr>GetProtocol = DNS, MultiRequests = True,
      ParseRequest = CreatePkgParser fastfailDnsRequest (parseTcpDnsRequest h),
      ParseResponse = CreatePkgParser fastfailDnsResponse (parseTcpDnsResponse h),
      PairMatch = dnsPair\<rparr>"

section \<open>Notions used in the statements\<close>

text \<open>
  \<open>reinserted na ref\<close> is the analyzer after the request buffer of state \<open>ref\<close> was
  put back into the state stored under the key of its first request, the one effect
  \<open>getRecords\<close> has on the analyzer. \<open>withFeedbackOf na na'\<close> is \<open>na'\<close> with the
  port cache and the port counters of \<open>na\<close>; \<open>cachedFor\<close> lists the parsers cached
  for a port.
\<close>

definition reinserted :: "networkAnalyzer \<Rightarrow> stateRef \<Rightarrow> networkAnalyzer" where
  "reinserted na ref =
     (case requests (heap na ref) of
        None \<Rightarrow> na
      | Some reqs \<Rightarrow>
          (case requestMonitor na (getMessagePairKey (event reqs)) of
             None \<Rightarrow> na
           | Some oldRef \<Rightarrow>
               na\<lparr>heap := (heap na)
                      (oldRef := putRequestBack (requests (heap na ref)) (heap na oldRef))\<rparr>))"

definition withFeedbackOf :: "networkAnalyzer \<Rightarrow> networkAnalyzer \<Rightarrow> networkAnalyzer" where
  "withFeedbackOf na na' =
     na'\<lparr>portCounts := portCounts na, cachedParsersMap := cachedParsersMap na\<rparr>"

definition cachedFor :: "networkAnalyzer \<Rightarrow> 32 word \<Rightarrow> parserRef list" where
  "cachedFor na port = (case GetCachedParsersByPort na port of None \<Rightarrow> [] | Some ps \<Rightarrow> ps)"

text \<open>
  The error classification a record carries, and whether the attributes a parser
  handed over say "error" or carry the HttpContinue mark.
\<close>

definition isErrorOf :: "dataGroup \<Rightarrow> bool" where
  "isErrorOf r = GetBoolValue (Labels r) IsError"

definition errorTypeOf :: "dataGroup \<Rightarrow> int" where
  "errorTypeOf r = GetIntValue (Labels r) ErrorType"

definition parserSetError :: "attributeMap option \<Rightarrow> bool" where
  "parserSetError attrs = (case attrs of None \<Rightarrow> False | Some a \<Rightarrow> GetBoolValue a IsError)"

definition parserErrorType :: "attributeMap option \<Rightarrow> attrValue option" where
  "parserErrorType attrs = (case attrs of None \<Rightarrow> None | Some a \<Rightarrow> a ErrorType)"

definition marksContinue :: "attributeMap option \<Rightarrow> bool" where
  "marksContinue attrs = (case attrs of None \<Rightarrow> False | Some a \<Rightarrow> HasAttribute a HttpContinue)"

text \<open>
  The classification after the parser's attributes were merged over the labels
  "no error" and the closing check was made.
\<close>

definition classified :: "attributeMap option \<Rightarrow> bool \<Rightarrow> attributeMap \<Rightarrow> bool" where
  "classified attrs noResponse labels =
     ((parserSetError attrs \<longrightarrow>
         GetBoolValue labels IsError \<and>
         labels ErrorType =
           (case parserErrorType attrs of None \<Rightarrow> Some (IntValue NoError) | Some v \<Rightarrow> Some v))
      \<and> (\<not> parserSetError attrs \<and> noResponse \<longrightarrow>
         labels IsError = Some (BoolValue True) \<and> labels ErrorType = Some (IntValue NoResponse))
      \<and> (\<not> parserSetError attrs \<and> \<not> noResponse \<and> parserErrorType attrs = None \<longrightarrow>
         \<not> GetBoolValue labels IsError \<and> labels ErrorType = Some (IntValue NoError))
      \<and> (parserErrorType attrs \<noteq> Some (IntValue ConnectFail) \<longrightarrow>
         labels ErrorType \<noteq> Some (IntValue ConnectFail)))"


definition rcodeOf :: "dnsReader \<Rightarrow> payloadMessage \<Rightarrow> 16 word" where
  "rcodeOf h message = fst (ReadUInt16 h message (Offset message + 2)) AND 0xf"

text \<open>The label names \<open>getRecords\<close> writes by itself.\<close>

definition recordLabelNames :: "string set" where
  "recordLabelNames =
     {Pid, RequestTid, ResponseTid, Comm, SrcIp, DstIp, SrcPort, DstPort, DnatIp, DnatPort,
      ContainerId, IsError, ErrorType, IsSlow, IsServer, Protocol, EndTimestamp,
      RequestPayload, ResponsePayload}"

text \<open>
  For the multi-request parser: the parsed message of a response event and whether
  the parser claims it, the record that pairs a response with the request the DNS
  matcher selects for it, and the no-response records of the requests whose index
  is not among \<open>answered\<close>.
\<close>

definition responseMsgOf :: "protocolParser \<Rightarrow> kindlingEvent \<Rightarrow> payloadMessage" where
  "responseMsgOf parser resp = snd (ParseResponse parser (NewResponseMessage (evData resp) Map.empty))"

definition responseParses :: "protocolParser \<Rightarrow> kindlingEvent \<Rightarrow> bool" where
  "responseParses parser resp = fst (ParseResponse parser (NewResponseMessage (evData resp) Map.empty))"

definition matches :: "payloadMessage \<Rightarrow> payloadMessage \<Rightarrow> bool" where
  "matches reqMsg respMsg =
     (GetIntAttribute reqMsg DnsId = GetIntAttribute respMsg DnsId \<and>
      GetStringAttribute reqMsg DnsDomain = GetStringAttribute respMsg DnsDomain)"

definition pairedRecord ::
  "networkAnalyzer \<Rightarrow> protocolParser \<Rightarrow> natTuple option \<Rightarrow> events \<Rightarrow> payloadMessage list
     \<Rightarrow> kindlingEvent \<Rightarrow> dataGroup" where
  "pairedRecord na parser nt reqs parsedReqMsgs resp =
     getRecordWithSinglePair na
       \<lparr>request = allEvents reqs ! nat (dnsPair parsedReqMsgs (responseMsgOf parser resp)),
        response = Some resp, mpNatTuple = nt\<rparr>
       (GetProtocol parser) (attributes (responseMsgOf parser resp))"

definition unansweredRecords ::
  "networkAnalyzer \<Rightarrow> protocolParser \<Rightarrow> natTuple option \<Rightarrow> int set \<Rightarrow> events
     \<Rightarrow> payloadMessage list \<Rightarrow> dataGroup list" where
  "unansweredRecords na parser nt answered reqs parsedReqMsgs =
     map (\<lambda>z. getRecordWithSinglePair na
                 \<lparr>request = fst (snd z), response = None, mpNatTuple = nt\<rparr>
                 (GetProtocol parser) (attributes (snd (snd z))))
       (filter (\<lambda>z. int (fst z) \<notin> answered)
          (enumerate 0 (zip (allEvents reqs) parsedReqMsgs)))"

section \<open>Example inputs\<close>

definition exampleEvent :: "32 word \<Rightarrow> 64 word \<Rightarrow> bytes \<Rightarrow> kindlingEvent" where
  "exampleEvent sport ts d =
     \<lparr>evName = ''write'', evPid = 1, evTid = 7, evFd = 10, evComm = ''app'',
      evContainerId = [], evSip = ''10.0.0.1'', evDip = ''10.0.0.2'', evSipList = [1],
      evDipList = [2], evSport = sport, evDport = 80, evRole = False, evIsUdp = 0,
      evData = d, evDataLen = length d, evTimestamp = ts, evStartTime = ts\<rparr>"

definition exampleConfig :: "64 word \<Rightarrow> 64 word \<Rightarrow> config" where
  "exampleConfig fdReuse noResponse =
     \<lparr>EnableConntrack = False, EnableTimeoutCheck = True, ConnectTimeout = 100,
      FdReuseTimeout = fdReuse, NoResponseThreshold = noResponse,
      ResponseSlowThreshold = 500\<rparr>"

definition examplePairs :: "events option \<Rightarrow> events option \<Rightarrow> messagePairs" where
  "examplePairs reqs resps =
     \<lparr>connects = None, requests = reqs, responses = resps, natTuple = None,
      sent_once = False, maxPayloadLength = 1000\<rparr>"

text \<open>
  A state with a request at second 90 and a response at 100.9 seconds, and one with
  the request only.
\<close>

definition answeredPairs :: messagePairs where
  "answeredPairs =
     examplePairs (Some (newEvents (exampleEvent 40000 90000000000 [1]) 1000))
       (Some (newEvents (exampleEvent 40000 100900000000 [2]) 1000))"

definition unansweredPairs :: messagePairs where
  "unansweredPairs =
     examplePairs (Some (newEvents (exampleEvent 40000 90000000000 [1]) 1000)) None"

definition exampleExternals :: externals where
  "exampleExternals =
     \<lparr>GetDNATTuple = (\<lambda>srcIP dstIP srcPort dstPort isUdp. None),
      GetPayloadString = (\<lambda>d protocolName. []),
      pairDuration = (\<lambda>mp. 0), pairSentTime = (\<lambda>mp. 0), pairWaitingTime = (\<lambda>mp. 0),
      pairDownloadTime = (\<lambda>mp. 0), pairRquestSize = (\<lambda>mp. 0),
      pairResponseSize = (\<lambda>mp. 0)\<rparr>"

definition rejectingParser :: protocolParser where
  "rejectingParser =
     \<lparr>GetProtocol = ''none'', MultiRequests = False,
      ParseRequest = (\<lambda>m. (False, m)), ParseResponse = (\<lambda>m. (False, m)),
      PairMatch = (\<lambda>reqMsgs respMsg. - 1)\<rparr>"

definition exampleAnalyzer :: "messagePairs \<Rightarrow> networkAnalyzer" where
  "exampleAnalyzer mps =
     (let na = NewNetworkAnalyzer Map.empty (exampleConfig 15 120) exampleExternals
                 (\<lambda>p. rejectingParser)
      in na\<lparr>heap := (heap na)(0 := mps), requestMonitor := [(1, 10) \<mapsto> 0], nextRef := 1\<rparr>)"

text \<open>
  A reader for the DNS examples: big-endian 16-bit reads within the data, and a
  one-label name of three octets in place of \<open>unpackDomainName\<close>. The response below
  has id 0x1234, flags 0x8183 (rcode 3), one question and no answer.
\<close>

definition exampleReader :: dnsReader where
  "exampleReader =
     \<lparr>ReadUInt16 = (\<lambda>m off.
        if 0 \<le> off \<and> nat off + 1 < length (Data m)
        then (ucast (Data m ! nat off) * 256 + ucast (Data m ! (nat off + 1)), True)
        else (0, False)),
      ReadBytes = (\<lambda>m off n. (off, take (nat n) (drop (nat off) (Data m)), True)),
      IsComplete = (\<lambda>m. int (length (Data m)) \<le> Offset m),
      unpackDomainName = (\<lambda>d off. (''a'', off + 3, True)),
      ipString = (\<lambda>b. ''0.0.0.0'')\<rparr>"

definition exampleDnsResponse :: payloadMessage where
  "exampleDnsResponse =
     NewResponseMessage
       [0x12, 0x34, 0x81, 0x83, 0, 1, 0, 0, 0, 0, 0, 0, 1, 0x61, 0, 0, 1, 0, 1] Map.empty"

definition protocolErrorAttributes :: attributeMap where
  "protocolErrorAttributes = [IsError \<mapsto> BoolValue True, ErrorType \<mapsto> IntValue ProtocolError]"

text \<open>
  A single-request parser for the examples: it claims every non-empty request as
  "http" and marks a response that starts with octet 100 as HttpContinue. The
  analyzer \<open>httpAnalyzer\<close> maps port 80 to it statically; \<open>continuedPairs\<close> is a
  state whose response is such a 100-continue.
\<close>

definition continueParser :: protocolParser where
  "continueParser =
     \<lparr>GetProtocol = ''http'', MultiRequests = False,
      ParseRequest = (\<lambda>m. (Data m \<noteq> [], m)),
      ParseResponse = (\<lambda>m. (True, case Data m of
                                      [] \<Rightarrow> m
                                    | b # bs \<Rightarrow> if b = 100 then AddBoolAttribute HttpContinue True m
                                               else m)),
      PairMatch = (\<lambda>reqMsgs respMsg. - 1)\<rparr>"

definition httpAnalyzer :: "messagePairs \<Rightarrow> networkAnalyzer" where
  "httpAnalyzer mps =
     (exampleAnalyzer mps)\<lparr>staticPortMap := [80 \<mapsto> ''http''], protocolMap := [''http'' \<mapsto> 0],
                           parserTable := (\<lambda>p. continueParser)\<rparr>"

definition continuedPairs :: messagePairs where
  "continuedPairs =
     examplePairs (Some (newEvents (exampleEvent 40000 90000000000 [71, 69, 84]) 1000))
       (Some (newEvents (exampleEvent 40000 91000000000 [100]) 1000))"

text \<open>A state whose one request has no payload, and a state with a connect only.\<close>

definition emptyRequestPairs :: messagePairs where
  "emptyRequestPairs =
     examplePairs (Some (newEvents (exampleEvent 40000 90000000000 []) 1000)) None"

definition connectingPairs :: messagePairs where
  "connectingPairs =
     (examplePairs None None)
       \<lparr>connects := Some (newEvents (exampleEvent 40000 90000000000 []) 1000)\<rparr>"

text \<open>
  An analyzer with two parsers and no static port: parser 0 rejects everything,
  parser 1 is the generic one (protocol NOSUPPORT), which claims everything. All
  port counters stand at \<open>count\<close>; \<open>cachingAnalyzer\<close> has the generic parser cached for
  port 80.
\<close>

definition genericParser :: protocolParser where
  "genericParser =
     \<lparr>GetProtocol = NOSUPPORT, MultiRequests = False,
      ParseRequest = (\<lambda>m. (True, m)), ParseResponse = (\<lambda>m. (True, m)),
      PairMatch = (\<lambda>reqMsgs respMsg. - 1)\<rparr>"

definition scanningAnalyzer :: "nat \<Rightarrow> networkAnalyzer" where
  "scanningAnalyzer count =
     (exampleAnalyzer unansweredPairs)
       \<lparr>parsers := [0, 1],
        parserTable := (\<lambda>p. if p = 0 then rejectingParser else genericParser),
        portCounts := (\<lambda>p port. count)\<rparr>"

definition cachingAnalyzer :: "nat \<Rightarrow> networkAnalyzer" where
  "cachingAnalyzer count = (scanningAnalyzer count)\<lparr>cachedParsersMap := [80 \<mapsto> [1]]\<rparr>"

section \<open>Properties\<close>

subsection \<open>Snaplen from the environment\<close>

lemma Atoi_examples:
  "Atoi ''0'' = Some 0" "Atoi ''-5'' = Some (- 5)" "Atoi ''abc'' = None" "Atoi [] = None"
  "Atoi ''1_000'' = None" "Atoi ''9223372036854775808'' = None"
  by (simp_all add: Atoi_def isDigit_def)

text \<open>
  C9. \<open>getSnaplenEnv\<close> falls back to 1000 exactly on the error branch of Atoi, which
  an unset SNAPLEN takes as well (Getenv gives the empty string); whatever Atoi accepts
  is returned unchanged, with no check of its sign or size. A result other than 1000
  can only be the parsed value of a variable that is set.
\<close>

theorem getSnaplenEnv_default_or_parsed:
  "(env ''SNAPLEN'' = None \<longrightarrow> getSnaplenEnv env = 1000)
   \<and> (Atoi (Getenv env ''SNAPLEN'') = None \<longrightarrow> getSnaplenEnv env = 1000)
   \<and> (\<forall>n. Atoi (Getenv env ''SNAPLEN'') = Some n \<longrightarrow> getSnaplenEnv env = n)
   \<and> (getSnaplenEnv env \<noteq> 1000 \<longrightarrow>
        env ''SNAPLEN'' \<noteq> None \<and> Atoi (Getenv env ''SNAPLEN'') = Some (getSnaplenEnv env))"
  by (auto simp: getSnaplenEnv_def Getenv_def Atoi_def split: option.splits)

theorem getSnaplenEnv_witness:
  "getSnaplenEnv Map.empty = 1000
   \<and> getSnaplenEnv [''SNAPLEN'' \<mapsto> ''abc''] = 1000
   \<and> getSnaplenEnv [''SNAPLEN'' \<mapsto> ''0''] = 0
   \<and> getSnaplenEnv [''SNAPLEN'' \<mapsto> ''-5''] = - 5"
proof -
  have a: "Atoi (Getenv [''SNAPLEN'' \<mapsto> ''0''] ''SNAPLEN'') = Some 0"
    by (simp add: Getenv_def Atoi_def isDigit_def)
  have b: "Atoi (Getenv [''SNAPLEN'' \<mapsto> ''-5''] ''SNAPLEN'') = Some (- 5)"
    by (simp add: Getenv_def Atoi_def isDigit_def)
  have c: "Atoi (Getenv [''SNAPLEN'' \<mapsto> ''abc''] ''SNAPLEN'') = None"
    by (simp add: Getenv_def Atoi_def isDigit_def)
  have u: "(Map.empty :: environ) ''SNAPLEN'' = None"
    by simp
  note unset = getSnaplenEnv_default_or_parsed [of Map.empty, THEN conjunct1, rule_format, OF u]
  note bad = getSnaplenEnv_default_or_parsed
    [of "[''SNAPLEN'' \<mapsto> ''abc'']", THEN conjunct2, THEN conjunct1, rule_format, OF c]
  note zero = getSnaplenEnv_default_or_parsed
    [of "[''SNAPLEN'' \<mapsto> ''0'']", THEN conjunct2, THEN conjunct2, THEN conjunct1,
     rule_format, OF a]
  note negative = getSnaplenEnv_default_or_parsed
    [of "[''SNAPLEN'' \<mapsto> ''-5'']", THEN conjunct2, THEN conjunct2, THEN conjunct1,
     rule_format, OF b]
  from unset bad zero negative show ?thesis
    by (intro conjI)
qed

subsection \<open>Port selection of the metrics server\<close>

text \<open>
  C10, as the code has it. \<open>StartServer\<close> panics when kindling_mod_number is unset or
  empty; it panics as well when the ports map has no entry for the variable's value or
  maps it to the empty string; in every other case it listens on the mapped value and
  returns nil when the server ends with nil or \<open>http.ErrServerClosed\<close>, and the
  error otherwise.
\<close>

theorem StartServer_cases:
  "(Getenv env ''kindling_mod_number'' = [] \<longrightarrow>
      StartServer env ports L = Panics ModNumberNotSet)
   \<and> (Getenv env ''kindling_mod_number'' \<noteq> [] \<and>
        (ports (Getenv env ''kindling_mod_number'') = None
         \<or> ports (Getenv env ''kindling_mod_number'') = Some []) \<longrightarrow>
      StartServer env ports L = Panics MetricPortNotFound)
   \<and> (\<forall>port. Getenv env ''kindling_mod_number'' \<noteq> [] \<and>
        ports (Getenv env ''kindling_mod_number'') = Some port \<and> port \<noteq> [] \<longrightarrow>
      StartServer env ports L =
        Returns (case L port of
                   None \<Rightarrow> None
                 | Some ErrServerClosed \<Rightarrow> None
                 | Some (OtherError e) \<Rightarrow> Some (OtherError e)))"
  by (auto simp: StartServer_def Let_def split: option.splits srvError.splits)

theorem StartServer_cases_witness:
  "StartServer Map.empty [''1'' \<mapsto> '':9500''] serveUntilClosed = Panics ModNumberNotSet
   \<and> StartServer [''kindling_mod_number'' \<mapsto> ''2''] [''1'' \<mapsto> '':9500''] serveUntilClosed
       = Panics MetricPortNotFound
   \<and> StartServer [''kindling_mod_number'' \<mapsto> ''1''] [''1'' \<mapsto> '':9500''] serveUntilClosed
       = Returns None"
proof -
  let ?e1 = "[''kindling_mod_number'' \<mapsto> ''2'']"
  let ?e2 = "[''kindling_mod_number'' \<mapsto> ''1'']"
  let ?p = "[''1'' \<mapsto> '':9500'']"
  have g0: "Getenv Map.empty ''kindling_mod_number'' = []" by (simp add: Getenv_def)
  have g1: "Getenv ?e1 ''kindling_mod_number'' = ''2''" by (simp add: Getenv_def)
  have g2: "Getenv ?e2 ''kindling_mod_number'' = ''1''" by (simp add: Getenv_def)
  show ?thesis
    using StartServer_cases [of Map.empty ?p serveUntilClosed]
      StartServer_cases [of ?e1 ?p serveUntilClosed]
      StartServer_cases [of ?e2 ?p serveUntilClosed] g0 g1 g2
    by (simp add: serveUntilClosed_def)
qed

text \<open>
  The ports map has a key equal to the variable's value, and still the server does not
  listen: the mapped value is the empty string, which the second guard rejects.
\<close>

theorem StartServer_empty_port_panics:
  "[''1'' \<mapsto> []] (Getenv [''kindling_mod_number'' \<mapsto> ''1''] ''kindling_mod_number'') = Some []
   \<and> StartServer [''kindling_mod_number'' \<mapsto> ''1''] [''1'' \<mapsto> []] serveUntilClosed
       = Panics MetricPortNotFound"
  by (simp add: StartServer_def Getenv_def)

subsection \<open>Timeout classification of the sweeper\<close>

lemma idleSeconds_example:
  "idleSeconds 110000000000 100900000000 = 10" "idleSeconds 110000000000 90000000000 = 20"
  by (simp_all add: idleSeconds_def signed_divide_int_def)

lemma getTimeoutTs_example:
  "getTimeoutTs answeredPairs = 100900000000" "getTimeoutTs unansweredPairs = 90000000000"
  by (simp_all add: getTimeoutTs_def answeredPairs_def unansweredPairs_def examplePairs_def
      newEvents_def getLastTimestamp_def allEvents_def exampleEvent_def)

lemma responses_example:
  "responses answeredPairs \<noteq> None" "responses unansweredPairs = None"
  by (simp_all add: answeredPairs_def unansweredPairs_def examplePairs_def)

text \<open>
  C2, as the code has it. With \<open>idle\<close> the difference of the whole seconds of now and
  of the state's last event, the sweeper flushes a state without responses exactly
  when \<open>idle\<close> has reached noResponseThreshold, and a state with responses exactly
  when \<open>idle\<close> has reached fdReuseTimeout or noResponseThreshold: a state with
  responses that is still below fdReuseTimeout falls to the second test. A state
  with no event (timeout timestamp 0) is never flushed.
\<close>

theorem sweepDecision_thresholds:
  "(sweepDecision c now mps = NoFdReuseRequest \<longleftrightarrow>
      getTimeoutTs mps \<noteq> 0 \<and> responses mps \<noteq> None \<and>
      sint (FdReuseTimeout c) \<le> sint (idleSeconds now (getTimeoutTs mps)))
   \<and> (sweepDecision c now mps = NoResponseRequest \<longleftrightarrow>
      getTimeoutTs mps \<noteq> 0 \<and>
      \<not> (responses mps \<noteq> None \<and>
         sint (FdReuseTimeout c) \<le> sint (idleSeconds now (getTimeoutTs mps))) \<and>
      sint (NoResponseThreshold c) \<le> sint (idleSeconds now (getTimeoutTs mps)))
   \<and> (responses mps = None \<and> sweepDecision c now mps \<noteq> KeepState \<longrightarrow>
      sint (NoResponseThreshold c) \<le> sint (idleSeconds now (getTimeoutTs mps)))
   \<and> (responses mps \<noteq> None \<and> sweepDecision c now mps \<noteq> KeepState \<longrightarrow>
      sint (FdReuseTimeout c) \<le> sint (idleSeconds now (getTimeoutTs mps)) \<or>
      sint (NoResponseThreshold c) \<le> sint (idleSeconds now (getTimeoutTs mps)))
   \<and> (sweepDecision (cfg na) now (heap na ref) = KeepState \<longrightarrow> sweepState now ref na = Inr na)
   \<and> (sweepDecision (cfg na) now (heap na ref) \<noteq> KeepState \<longrightarrow>
        sweepState now ref na =
          (case distributeTraceMetric na ref None of
             Inl e \<Rightarrow> Inl e | Inr (emitted, na1) \<Rightarrow> Inr na1))"
  by (auto simp: sweepDecision_def sweepState_def Let_def split: sweepBranch.splits)

theorem sweepDecision_thresholds_witness:
  "sweepDecision (exampleConfig 15 120) 110000000000 unansweredPairs = KeepState
   \<and> sweepDecision (exampleConfig 15 20) 110000000000 unansweredPairs = NoResponseRequest
   \<and> sweepDecision (exampleConfig 10 120) 110000000000 answeredPairs = NoFdReuseRequest
   \<and> sint (NoResponseThreshold (exampleConfig 15 20))
        \<le> sint (idleSeconds 110000000000 (getTimeoutTs unansweredPairs))"
proof -
  have keep: "sweepDecision (exampleConfig 15 120) 110000000000 unansweredPairs = KeepState"
    by (simp add: sweepDecision_def getTimeoutTs_example idleSeconds_example responses_example
        exampleConfig_def)
  have late: "getTimeoutTs unansweredPairs \<noteq> 0 \<and>
      \<not> (responses unansweredPairs \<noteq> None \<and>
         sint (FdReuseTimeout (exampleConfig 15 20))
           \<le> sint (idleSeconds 110000000000 (getTimeoutTs unansweredPairs))) \<and>
      sint (NoResponseThreshold (exampleConfig 15 20))
        \<le> sint (idleSeconds 110000000000 (getTimeoutTs unansweredPairs))"
    by (simp add: getTimeoutTs_example idleSeconds_example responses_example exampleConfig_def)
  have answered: "getTimeoutTs answeredPairs \<noteq> 0 \<and> responses answeredPairs \<noteq> None \<and>
      sint (FdReuseTimeout (exampleConfig 10 120))
        \<le> sint (idleSeconds 110000000000 (getTimeoutTs answeredPairs))"
    by (simp add: getTimeoutTs_example idleSeconds_example responses_example exampleConfig_def)
  note t1 = sweepDecision_thresholds
    [of "exampleConfig 15 20" 110000000000 unansweredPairs, THEN conjunct2, THEN conjunct1,
     THEN iffD2, OF late]
  note t2 = sweepDecision_thresholds
    [of "exampleConfig 10 120" 110000000000 answeredPairs, THEN conjunct1, THEN iffD2, OF answered]
  have flushed: "responses unansweredPairs = None \<and>
      sweepDecision (exampleConfig 15 20) 110000000000 unansweredPairs \<noteq> KeepState"
    using t1 by (simp add: responses_example)
  note t3 = sweepDecision_thresholds
    [of "exampleConfig 15 20" 110000000000 unansweredPairs, THEN conjunct2, THEN conjunct2,
     THEN conjunct1, rule_format, OF flushed]
  from keep t1 t2 t3 show ?thesis by (intro conjI)
qed

text \<open>
  A state with responses, idle for 10 seconds, is flushed under fdReuseTimeout 15 and
  noResponseThreshold 5: before fdReuseTimeout has passed.
\<close>

theorem sweep_flushes_before_fdReuseTimeout:
  "responses answeredPairs \<noteq> None
   \<and> sweepDecision (exampleConfig 15 5) 110000000000 answeredPairs = NoResponseRequest
   \<and> sint (idleSeconds 110000000000 (getTimeoutTs answeredPairs))
       < sint (FdReuseTimeout (exampleConfig 15 5))"
  by (simp add: sweepDecision_def getTimeoutTs_example idleSeconds_example responses_example
      exampleConfig_def)

subsection \<open>What protocol resolution changes in the analyzer\<close>

lemma getRecords_state:
  "getRecords na ref p a = Inr (recs, na') \<Longrightarrow> na' = na \<or> (na' = reinserted na ref \<and> recs = [])"
  by (auto simp: getRecords_def reinserted_def Let_def split: option.splits if_splits)

lemma parseProtocol_state:
  "parseProtocol na ref pr = Inr (r, na') \<Longrightarrow>
     na' = na \<or> (na' = reinserted na ref \<and> r = Some [])"
  by (auto simp: parseProtocol_def claimed_def Let_def
      split: option.splits if_splits sum.splits prod.splits dest: getRecords_state)

lemma parseProtocol_None:
  "parseProtocol na ref pr = Inr (None, na') \<Longrightarrow> na' = na"
  by (auto simp: parseProtocol_def claimed_def Let_def
      split: option.splits if_splits sum.splits prod.splits)

lemma withFeedbackOf_simps:
  "withFeedbackOf na na = na"
  "withFeedbackOf na (ResetPort p port x) = withFeedbackOf na x"
  "withFeedbackOf na (AddCachedParser port p x) = withFeedbackOf na x"
  "withFeedbackOf na (RemoveCachedParser port p x) = withFeedbackOf na x"
  "withFeedbackOf na (snd (AddPortCount p port x)) = withFeedbackOf na x"
  by (simp_all add: withFeedbackOf_def ResetPort_def AddCachedParser_def RemoveCachedParser_def
      AddPortCount_def Let_def split: option.splits)

lemma withFeedbackOf_reinserted:
  "withFeedbackOf na (reinserted na ref) = reinserted na ref"
  by (simp add: withFeedbackOf_def reinserted_def split: option.splits)

lemma tryCachedParsers_state:
  "tryCachedParsers na ref port ps = Inr (r, na') \<Longrightarrow>
     (r = None \<and> na' = na) \<or>
     (r \<noteq> None \<and> (withFeedbackOf na na' = na \<or>
                   (withFeedbackOf na na' = reinserted na ref \<and> r = Some [])))"
proof (induction ps)
  case Nil
  then show ?case by simp
next
  case (Cons p ps)
  show ?case
  proof (cases "parseProtocol na ref p")
    case (Inl e)
    with Cons.prems show ?thesis by simp
  next
    case (Inr res)
    obtain r1 na1 where res: "res = (r1, na1)" by (cases res)
    show ?thesis
    proof (cases r1)
      case None
      with Inr res have "na1 = na" by (auto dest: parseProtocol_None)
      with Cons Inr res None show ?thesis by simp
    next
      case (Some records)
      from Inr res have st: "na1 = na \<or> (na1 = reinserted na ref \<and> r1 = Some [])"
        by (auto dest: parseProtocol_state)
      from Cons.prems Inr res Some have "r = Some records"
        by (auto simp: Let_def split: if_splits prod.splits)
      moreover from Cons.prems Inr res Some have "withFeedbackOf na na' = withFeedbackOf na na1"
        by (auto simp: Let_def withFeedbackOf_simps split: if_splits prod.splits)
          (metis snd_conv withFeedbackOf_simps(5))+
      ultimately show ?thesis
        using st Some by (auto simp: withFeedbackOf_simps withFeedbackOf_reinserted)
    qed
  qed
qed

lemma tryAllParsers_state:
  "tryAllParsers na ref port ps = Inr (r, na') \<Longrightarrow>
     (r = None \<and> na' = na) \<or>
     (r \<noteq> None \<and> (withFeedbackOf na na' = na \<or>
                   (withFeedbackOf na na' = reinserted na ref \<and> r = Some [])))"
proof (induction ps)
  case Nil
  then show ?case by simp
next
  case (Cons p ps)
  show ?case
  proof (cases "parseProtocol na ref p")
    case (Inl e)
    with Cons.prems show ?thesis by simp
  next
    case (Inr res)
    obtain r1 na1 where res: "res = (r1, na1)" by (cases res)
    show ?thesis
    proof (cases r1)
      case None
      with Inr res have "na1 = na" by (auto dest: parseProtocol_None)
      with Cons Inr res None show ?thesis by simp
    next
      case (Some records)
      from Inr res have st: "na1 = na \<or> (na1 = reinserted na ref \<and> r1 = Some [])"
        by (auto dest: parseProtocol_state)
      from Cons.prems Inr res Some have "r = Some records"
        by (auto simp: Let_def split: if_splits prod.splits)
      moreover from Cons.prems Inr res Some have "withFeedbackOf na na' = withFeedbackOf na na1"
        by (auto simp: Let_def withFeedbackOf_simps split: if_splits prod.splits)
          (metis snd_conv withFeedbackOf_simps(5))+
      ultimately show ?thesis
        using st Some by (auto simp: withFeedbackOf_simps withFeedbackOf_reinserted)
    qed
  qed
qed

lemma parseProtocols_state:
  assumes "parseProtocols na ref = Inr (recs, na')"
  shows "withFeedbackOf na na' = na \<or> (withFeedbackOf na na' = reinserted na ref \<and> recs = [])"
proof (cases "staticPortMap na (getPort (heap na ref))")
  case (Some sp)
  with assms have "na' = na \<or> (na' = reinserted na ref \<and> recs = [])"
    by (auto simp: parseProtocols_def connectFail_def Let_def
        split: option.splits if_splits sum.splits prod.splits
        dest: getRecords_state parseProtocol_state parseProtocol_None)
  then show ?thesis
    by (auto simp: withFeedbackOf_simps withFeedbackOf_reinserted)
next
  case None
  show ?thesis
  proof (cases "requests (heap na ref) = None")
    case True
    with None assms have "na' = na"
      by (auto simp: parseProtocols_def connectFail_def Let_def split: sum.splits)
    then show ?thesis by (simp add: withFeedbackOf_simps)
  next
    case False
    let ?port = "getPort (heap na ref)"
    let ?c = "tryCachedParsers na ref ?port
                (case GetCachedParsersByPort na ?port of None \<Rightarrow> [] | Some ps \<Rightarrow> ps)"
    from None False assms obtain r1 na1 where c: "?c = Inr (r1, na1)"
      by (auto simp: parseProtocols_def Let_def split: sum.splits)
    show ?thesis
    proof (cases r1)
      case (Some records)
      with None False assms c have "na' = na1" "recs = records"
        by (auto simp: parseProtocols_def Let_def)
      with tryCachedParsers_state [OF c] Some show ?thesis by auto
    next
      case r1: None
      with tryCachedParsers_state [OF c] have na1: "na1 = na" by simp
      from None False assms c r1 na1 obtain r2 na2
        where a: "tryAllParsers na ref ?port (parsers na) = Inr (r2, na2)"
        by (auto simp: parseProtocols_def Let_def split: sum.splits)
      show ?thesis
      proof (cases r2)
        case (Some records)
        with None False assms c r1 na1 a have "na' = na2" "recs = records"
          by (auto simp: parseProtocols_def Let_def)
        with tryAllParsers_state [OF a] Some show ?thesis by auto
      next
        case r2: None
        with tryAllParsers_state [OF a] have na2: "na2 = na" by simp
        from None False assms c r1 na1 a r2 na2
        have "getRecords na ref NOSUPPORT None = Inr (recs, na')"
          by (auto simp: parseProtocols_def Let_def)
        from getRecords_state [OF this] show ?thesis
          by (auto simp: withFeedbackOf_simps withFeedbackOf_reinserted)
      qed
    qed
  qed
qed

lemma withFeedbackOf_fields:
  "heap (withFeedbackOf na na') = heap na'"
  "requestMonitor (withFeedbackOf na na') = requestMonitor na'"
  "consumed (withFeedbackOf na na') = consumed na'"
  "nextRef (withFeedbackOf na na') = nextRef na'"
  "cfg (withFeedbackOf na na') = cfg na'"
  "parserTable (withFeedbackOf na na') = parserTable na'"
  by (simp_all add: withFeedbackOf_def)

lemma reinserted_fields:
  "requestMonitor (reinserted na ref) = requestMonitor na"
  "consumed (reinserted na ref) = consumed na"
  "nextRef (reinserted na ref) = nextRef na"
  "cfg (reinserted na ref) = cfg na"
  "parserTable (reinserted na ref) = parserTable na"
  "portCounts (reinserted na ref) = portCounts na"
  "cachedParsersMap (reinserted na ref) = cachedParsersMap na"
  "sent_once (heap (reinserted na ref) x) = sent_once (heap na x)"
  by (simp_all add: reinserted_def putRequestBack_def split: option.splits)

lemma parseProtocols_frame:
  assumes "parseProtocols na ref = Inr (recs, na')"
  shows "requestMonitor na' = requestMonitor na" "consumed na' = consumed na"
    "nextRef na' = nextRef na" "sent_once (heap na' x) = sent_once (heap na x)"
    "heap na' = heap na \<or> (heap na' = heap (reinserted na ref) \<and> recs = [])"
proof -
  from parseProtocols_state [OF assms]
  have d: "withFeedbackOf na na' = na \<or> (withFeedbackOf na na' = reinserted na ref \<and> recs = [])" .
  show "requestMonitor na' = requestMonitor na"
    using d withFeedbackOf_fields(2) [of na na'] by (auto simp: reinserted_fields)
  show "consumed na' = consumed na"
    using d withFeedbackOf_fields(3) [of na na'] by (auto simp: reinserted_fields)
  show "nextRef na' = nextRef na"
    using d withFeedbackOf_fields(4) [of na na'] by (auto simp: reinserted_fields)
  show "sent_once (heap na' x) = sent_once (heap na x)"
  proof -
    from d withFeedbackOf_fields(1) [of na na']
    have "heap na' = heap na \<or> heap na' = heap (reinserted na ref)" by auto
    then show ?thesis by (auto simp: reinserted_fields)
  qed
  show "heap na' = heap na \<or> (heap na' = heap (reinserted na ref) \<and> recs = [])"
    using d withFeedbackOf_fields(1) [of na na'] by auto
qed

subsection \<open>The latch of the record emitter\<close>

lemma relateConntrack_frame:
  assumes "relateConntrack evt r na = Inr na'"
  shows "sent_once (heap na' x) = sent_once (heap na x)"
    "requestMonitor na' = requestMonitor na" "consumed na' = consumed na"
    "nextRef na' = nextRef na"
  using assms
  by (auto simp: relateConntrack_def split: if_splits list.splits option.splits)

lemma sent_once_idem:
  "sent_once m \<Longrightarrow> m\<lparr>sent_once := True\<rparr> = m"
  by (cases m) simp

lemma distributeTraceMetric_suppressed:
  assumes "sent_once (heap na ref)"
  shows "distributeTraceMetric na ref nw = Inr (None, na)"
proof -
  from assms have "(heap na)(ref := (heap na ref)\<lparr>sent_once := True\<rparr>) = heap na"
    by (simp add: sent_once_idem)
  with assms show ?thesis
    by (simp add: distributeTraceMetric_def checkSend_def Let_def split: option.splits)
qed

lemma parseProtocols_all:
  "parseProtocols na ref = Inr (recs, na') \<Longrightarrow>
     (\<forall>x. sent_once (heap na' x) = sent_once (heap na x)) \<and> consumed na' = consumed na \<and>
     requestMonitor na' = requestMonitor na \<and> nextRef na' = nextRef na"
  by (simp add: parseProtocols_frame)

lemma relateConntrack_all:
  "relateConntrack evt r na = Inr na' \<Longrightarrow>
     (\<forall>x. sent_once (heap na' x) = sent_once (heap na x)) \<and> consumed na' = consumed na \<and>
     requestMonitor na' = requestMonitor na \<and> nextRef na' = nextRef na"
  by (simp add: relateConntrack_frame)

lemma distributeTraceMetric_emitted:
  assumes "distributeTraceMetric na ref nw = Inr (Some recs, na')"
  shows "\<not> sent_once (heap na ref)" "sent_once (heap na' ref)"
    "consumed na' = consumed na @ recs"
proof -
  show n: "\<not> sent_once (heap na ref)"
    using assms distributeTraceMetric_suppressed [of na ref nw] by auto
  from assms n show "sent_once (heap na' ref)"
    by (auto simp: distributeTraceMetric_def checkSend_def Let_def recordMessagePairSize_def
        distributeRecords_def
        split: option.splits sum.splits if_splits prod.splits
        dest!: parseProtocols_all relateConntrack_all)
  from assms n show "consumed na' = consumed na @ recs"
    by (auto simp: distributeTraceMetric_def checkSend_def Let_def recordMessagePairSize_def
        distributeRecords_def
        split: option.splits sum.splits if_splits prod.splits
        dest!: parseProtocols_all relateConntrack_all)
qed

lemma distributeTraceMetric_monotone:
  assumes "distributeTraceMetric na ref nw = Inr (r, na')" "sent_once (heap na x)"
  shows "sent_once (heap na' x)"
proof (cases "sent_once (heap na ref)")
  case True
  with assms distributeTraceMetric_suppressed [of na ref nw] show ?thesis by simp
next
  case False
  with assms show ?thesis
    by (auto simp: distributeTraceMetric_def checkSend_def Let_def recordMessagePairSize_def
        distributeRecords_def
        split: option.splits sum.splits if_splits prod.splits
        dest!: parseProtocols_all relateConntrack_all)
qed

lemma distributeTraceMetric_not_emitted:
  assumes "distributeTraceMetric na ref nw = Inr (None, na')"
  shows "consumed na' = consumed na" "requestMonitor na' = requestMonitor na"
  using assms
  by (auto simp: distributeTraceMetric_def checkSend_def Let_def
      split: option.splits sum.splits if_splits prod.splits)

lemma emissionsOf_bound:
  "fst (emissionsOf ref flushes na) \<le> 1 \<and>
   (sent_once (heap na ref) \<longrightarrow> fst (emissionsOf ref flushes na) = 0)"
proof (induction flushes arbitrary: na)
  case Nil
  show ?case by simp
next
  case (Cons f flushes)
  obtain oldRef newRef where f: "f = (oldRef, newRef)" by (cases f)
  show ?case
  proof (cases "distributeTraceMetric na oldRef newRef")
    case (Inl e)
    with f show ?thesis by simp
  next
    case (Inr res)
    obtain emitted na1 where res: "res = (emitted, na1)" by (cases res)
    obtain n r where rest: "emissionsOf ref flushes na1 = (n, r)"
      by (cases "emissionsOf ref flushes na1")
    from Cons.IH [of na1] rest
    have ih: "n \<le> 1" "sent_once (heap na1 ref) \<Longrightarrow> n = 0" by simp_all
    show ?thesis
    proof (cases "oldRef = ref \<and> emitted \<noteq> None")
      case True
      then obtain recs where e: "emitted = Some recs" by auto
      from Inr res e True have d: "distributeTraceMetric na ref newRef = Inr (Some recs, na1)"
        by simp
      from distributeTraceMetric_emitted [OF d] ih(2)
      have "n = 0" "\<not> sent_once (heap na ref)" by simp_all
      with f Inr res rest True show ?thesis by simp
    next
      case False
      have "sent_once (heap na ref) \<Longrightarrow> n = 0"
      proof -
        assume "sent_once (heap na ref)"
        with Inr res have "sent_once (heap na1 ref)"
          by (auto intro: distributeTraceMetric_monotone)
        then show "n = 0" by (rule ih(2))
      qed
      with f Inr res rest False ih(1) show ?thesis by auto
    qed
  qed
qed

lemma exampleAnalyzer_flush:
  "\<exists>recs na1. distributeTraceMetric (exampleAnalyzer unansweredPairs) 0 None = Inr (Some recs, na1)"
  by (simp add: distributeTraceMetric_def exampleAnalyzer_def NewNetworkAnalyzer_def
      unansweredPairs_def examplePairs_def checkSend_def Let_def recordMessagePairSize_def
      relateConntrack_def exampleConfig_def parseProtocols_def getPort_def newEvents_def
      exampleEvent_def GetCachedParsersByPort_def getRecords_def getKey_def)

text \<open>
  C1. Of any sequence of flushes, by the router or by the sweeper and of whatever
  states, at most one flush of a given state reaches the record emitter, and none
  does when the state's latch is already set. A flush reaches the emitter only on a
  state whose latch is unset, and leaves it set; a flush of a state whose latch is
  set changes nothing; no flush ever unsets a latch.
\<close>

theorem at_most_once_emission:
  "fst (emissionsOf ref flushes na) \<le> 1
   \<and> (sent_once (heap na ref) \<longrightarrow> fst (emissionsOf ref flushes na) = 0)
   \<and> (sent_once (heap na ref) \<longrightarrow> distributeTraceMetric na ref nw = Inr (None, na))
   \<and> (\<forall>recs na1. distributeTraceMetric na ref nw = Inr (Some recs, na1) \<longrightarrow>
         \<not> sent_once (heap na ref) \<and> sent_once (heap na1 ref) \<and>
         consumed na1 = consumed na @ recs)
   \<and> (\<forall>r na1 x. distributeTraceMetric na ref nw = Inr (r, na1) \<and> sent_once (heap na x) \<longrightarrow>
         sent_once (heap na1 x))
   \<and> (\<forall>na1. distributeTraceMetric na ref nw = Inr (None, na1) \<longrightarrow> consumed na1 = consumed na)"
proof (intro conjI allI impI)
  show "fst (emissionsOf ref flushes na) \<le> 1"
    using emissionsOf_bound [of ref flushes na] by blast
  show "fst (emissionsOf ref flushes na) = 0" if "sent_once (heap na ref)"
    using that emissionsOf_bound [of ref flushes na] by blast
  show "distributeTraceMetric na ref nw = Inr (None, na)" if "sent_once (heap na ref)"
    using that by (rule distributeTraceMetric_suppressed)
  show "\<not> sent_once (heap na ref)"
    if "distributeTraceMetric na ref nw = Inr (Some recs, na1)" for recs na1
    using that by (rule distributeTraceMetric_emitted)
  show "sent_once (heap na1 ref)"
    if "distributeTraceMetric na ref nw = Inr (Some recs, na1)" for recs na1
    using that by (rule distributeTraceMetric_emitted)
  show "consumed na1 = consumed na @ recs"
    if "distributeTraceMetric na ref nw = Inr (Some recs, na1)" for recs na1
    using that by (rule distributeTraceMetric_emitted)
  show "sent_once (heap na1 x)"
    if "distributeTraceMetric na ref nw = Inr (r, na1) \<and> sent_once (heap na x)" for r na1 x
    using that by (auto intro: distributeTraceMetric_monotone)
  show "consumed na1 = consumed na"
    if "distributeTraceMetric na ref nw = Inr (None, na1)" for na1
    using that by (rule distributeTraceMetric_not_emitted)
qed

theorem at_most_once_emission_witness:
  "(\<exists>recs na1. distributeTraceMetric (exampleAnalyzer unansweredPairs) 0 None
                  = Inr (Some recs, na1) \<and> sent_once (heap na1 0))
   \<and> \<not> sent_once (heap (exampleAnalyzer unansweredPairs) 0)
   \<and> fst (emissionsOf 0 [(0, None), (0, Some 0)]
             (exampleAnalyzer (unansweredPairs\<lparr>sent_once := True\<rparr>))) = 0"
proof -
  obtain recs na1
    where f: "distributeTraceMetric (exampleAnalyzer unansweredPairs) 0 None = Inr (Some recs, na1)"
    using exampleAnalyzer_flush by blast
  note t = at_most_once_emission [of 0 "[]" "exampleAnalyzer unansweredPairs" None,
      THEN conjunct2, THEN conjunct2, THEN conjunct2, THEN conjunct1, rule_format, OF f]
  have s: "sent_once (heap (exampleAnalyzer (unansweredPairs\<lparr>sent_once := True\<rparr>)) 0)"
    by (simp add: exampleAnalyzer_def Let_def)
  note z = at_most_once_emission [of 0 "[(0, None), (0, Some 0)]"
      "exampleAnalyzer (unansweredPairs\<lparr>sent_once := True\<rparr>)" None,
      THEN conjunct2, THEN conjunct1, rule_format, OF s]
  from f t z show ?thesis by blast
qed

subsection \<open>The request handler\<close>

lemma relateConntrack_heap:
  assumes "relateConntrack evt r na = Inr na'"
  shows "x \<noteq> r \<Longrightarrow> heap na' x = heap na x" "requests (heap na' x) = requests (heap na x)"
  using assms
  by (auto simp: relateConntrack_def split: if_splits list.splits option.splits)

lemma reinserted_heap:
  "heap (reinserted na ref) x = heap na x \<or>
   heap (reinserted na ref) x = putRequestBack (requests (heap na ref)) (heap na x)"
  by (simp add: reinserted_def split: option.splits)

lemma distributeTraceMetric_unfold:
  assumes "\<not> sent_once (heap na oldRef)" "requests (heap na oldRef) = Some q"
  shows "distributeTraceMetric na oldRef (Some newRef) =
     (case relateConntrack
             (case connects (heap na oldRef) of Some c \<Rightarrow> event c | None \<Rightarrow> event q) oldRef
             (na\<lparr>heap := (heap na)(oldRef := (heap na oldRef)\<lparr>sent_once := True\<rparr>),
                requestMonitor := (requestMonitor na)
                  (getKey (((heap na)(oldRef := (heap na oldRef)\<lparr>sent_once := True\<rparr>)) newRef)
                     \<mapsto> newRef)\<rparr>) of
        Inl e \<Rightarrow> Inl e
      | Inr na3 \<Rightarrow>
          (case parseProtocols na3 oldRef of
             Inl e \<Rightarrow> Inl e
           | Inr (records, na4) \<Rightarrow> Inr (Some records, distributeRecords records na4)))"
  using assms
  by (simp add: distributeTraceMetric_def checkSend_def Let_def split: option.splits)

lemma distributeTraceMetric_replace:
  assumes d: "distributeTraceMetric na oldRef (Some newRef) = Inr (em, na')"
    and u: "\<not> sent_once (heap na oldRef)"
    and q: "requests (heap na oldRef) = Some q"
    and n: "newRef \<noteq> oldRef"
  shows "requestMonitor na' = (requestMonitor na)(getKey (heap na newRef) \<mapsto> newRef)"
    "heap na' newRef = heap na newRef \<or>
     heap na' newRef = putRequestBack (Some q) (heap na newRef)"
    "\<exists>records. em = Some records \<and> consumed na' = consumed na @ records"
    "sent_once (heap na' oldRef)"
proof -
  let ?na2 = "na\<lparr>heap := (heap na)(oldRef := (heap na oldRef)\<lparr>sent_once := True\<rparr>),
                requestMonitor := (requestMonitor na)
                  (getKey (((heap na)(oldRef := (heap na oldRef)\<lparr>sent_once := True\<rparr>)) newRef)
                     \<mapsto> newRef)\<rparr>"
  let ?evt = "case connects (heap na oldRef) of Some c \<Rightarrow> event c | None \<Rightarrow> event q"
  from d obtain na3 records na4
    where c: "relateConntrack ?evt oldRef ?na2 = Inr na3"
      and p: "parseProtocols na3 oldRef = Inr (records, na4)"
      and e: "em = Some records" "na' = distributeRecords records na4"
    unfolding distributeTraceMetric_unfold [OF u q]
    by (auto split: sum.splits prod.splits)
  from relateConntrack_frame [OF c] parseProtocols_frame [OF p] e n
  show "requestMonitor na' = (requestMonitor na)(getKey (heap na newRef) \<mapsto> newRef)"
    by (simp add: distributeRecords_def)
  from relateConntrack_frame [OF c] parseProtocols_frame [OF p] e
  show "\<exists>records. em = Some records \<and> consumed na' = consumed na @ records"
    by (simp add: distributeRecords_def)
  from relateConntrack_frame(1) [OF c, of oldRef] parseProtocols_frame(4) [OF p, of oldRef] e
  show "sent_once (heap na' oldRef)"
    by (simp add: distributeRecords_def)
  have h3: "heap na3 newRef = heap na newRef"
    using relateConntrack_heap(1) [OF c, of newRef] n by simp
  have q3: "requests (heap na3 oldRef) = Some q"
    using relateConntrack_heap(2) [OF c, of oldRef] q by simp
  from parseProtocols_frame(5) [OF p] reinserted_heap [of na3 oldRef newRef] h3 q3 e
  show "heap na' newRef = heap na newRef \<or>
     heap na' newRef = putRequestBack (Some q) (heap na newRef)"
    by (auto simp: distributeRecords_def)
qed

lemma allocated_request:
  "getKey (newRequestPairs na evt) = getMessagePairKey evt"
  by (simp add: getKey_def newRequestPairs_def newEvents_def)

text \<open>
  C3. A request arrives for a key whose stored state already has requests and has
  not been flushed yet. If the stored state has responses, or its recorded source
  port differs from the event's, the handler flushes it with the new single-request
  state as replacement: the key then holds the new state, the old state's latch is
  set and its records were handed on; the new state holds the one new request,
  unless the flush ended in the HttpContinue re-insertion, which puts the old request
  buffer into it. Otherwise nothing is flushed and the request is appended to the
  stored state. So the key changes hands exactly in the first case.
\<close>

theorem analyseRequest_fd_reuse:
  assumes m: "requestMonitor na (getMessagePairKey evt) = Some oldRef"
    and a: "oldRef < nextRef na"
    and q: "requests (heap na oldRef) = Some oldRequests"
    and u: "\<not> sent_once (heap na oldRef)"
  shows "(\<not> (responses (heap na oldRef) \<noteq> None \<or> IsSportChanged oldRequests evt) \<longrightarrow>
           (\<exists>na'. analyseRequest na evt = Inr na' \<and>
              requestMonitor na' = requestMonitor na \<and>
              heap na' oldRef = mergeRequest evt (heap na oldRef) \<and>
              requests (heap na' oldRef) = Some (mergeEvent evt oldRequests) \<and>
              consumed na' = consumed na \<and> \<not> sent_once (heap na' oldRef)))
       \<and> (responses (heap na oldRef) \<noteq> None \<or> IsSportChanged oldRequests evt \<longrightarrow>
           (\<forall>na'. analyseRequest na evt = Inr na' \<longrightarrow>
              requestMonitor na' = (requestMonitor na)(getMessagePairKey evt \<mapsto> nextRef na) \<and>
              sent_once (heap na' oldRef) \<and>
              (\<exists>records. consumed na' = consumed na @ records) \<and>
              (heap na' (nextRef na) = newRequestPairs na evt \<or>
               heap na' (nextRef na) =
                 putRequestBack (Some oldRequests) (newRequestPairs na evt))))
       \<and> (\<forall>na'. analyseRequest na evt = Inr na' \<longrightarrow>
             (requestMonitor na' (getMessagePairKey evt) = Some (nextRef na) \<longleftrightarrow>
              responses (heap na oldRef) \<noteq> None \<or> IsSportChanged oldRequests evt))"
proof -
  let ?new = "newRequestPairs na evt"
  let ?na1 = "na\<lparr>heap := (heap na)(nextRef na := ?new), nextRef := nextRef na + 1\<rparr>"
  from a have ne: "oldRef \<noteq> nextRef na" "nextRef na \<noteq> oldRef" by simp_all
  have old1: "heap ?na1 oldRef = heap na oldRef" using ne by simp
  have new1: "heap ?na1 (nextRef na) = ?new" by simp
  have mergeCase: "analyseRequest na evt =
      Inr (?na1\<lparr>heap := (heap ?na1)(oldRef := mergeRequest evt (heap na oldRef))\<rparr>)"
    if "\<not> (responses (heap na oldRef) \<noteq> None \<or> IsSportChanged oldRequests evt)"
    using that m q ne
    by (simp add: analyseRequest_def allocate_def Let_def allocated_request)
  have flushCase: "analyseRequest na evt =
      (case distributeTraceMetric ?na1 oldRef (Some (nextRef na)) of
         Inl e \<Rightarrow> Inl e | Inr (emitted, na1) \<Rightarrow> Inr na1)"
    if "responses (heap na oldRef) \<noteq> None \<or> IsSportChanged oldRequests evt"
    using that m q ne
    by (auto simp: analyseRequest_def allocate_def Let_def allocated_request)
  have merged: "\<exists>na'. analyseRequest na evt = Inr na' \<and>
              requestMonitor na' = requestMonitor na \<and>
              heap na' oldRef = mergeRequest evt (heap na oldRef) \<and>
              requests (heap na' oldRef) = Some (mergeEvent evt oldRequests) \<and>
              consumed na' = consumed na \<and> \<not> sent_once (heap na' oldRef)"
    if c: "\<not> (responses (heap na oldRef) \<noteq> None \<or> IsSportChanged oldRequests evt)"
    using mergeCase [OF c] q u
    by (simp add: mergeRequest_def mergeBuffer_def)
  have flushed: "requestMonitor na' = (requestMonitor na)(getMessagePairKey evt \<mapsto> nextRef na) \<and>
              sent_once (heap na' oldRef) \<and>
              (\<exists>records. consumed na' = consumed na @ records) \<and>
              (heap na' (nextRef na) = newRequestPairs na evt \<or>
               heap na' (nextRef na) =
                 putRequestBack (Some oldRequests) (newRequestPairs na evt))"
    if c: "responses (heap na oldRef) \<noteq> None \<or> IsSportChanged oldRequests evt"
      and r: "analyseRequest na evt = Inr na'" for na'
  proof -
    from r flushCase [OF c] obtain em
      where d: "distributeTraceMetric ?na1 oldRef (Some (nextRef na)) = Inr (em, na')"
      by (auto split: sum.splits prod.splits)
    have u1: "\<not> sent_once (heap ?na1 oldRef)" using u old1 by simp
    have q1: "requests (heap ?na1 oldRef) = Some oldRequests" using q old1 by simp
    from distributeTraceMetric_replace [OF d u1 q1 ne(2)] new1
    show ?thesis by (auto simp: allocated_request)
  qed
  have key: "requestMonitor na' (getMessagePairKey evt) = Some (nextRef na) \<longleftrightarrow>
              responses (heap na oldRef) \<noteq> None \<or> IsSportChanged oldRequests evt"
    if r: "analyseRequest na evt = Inr na'" for na'
  proof (cases "responses (heap na oldRef) \<noteq> None \<or> IsSportChanged oldRequests evt")
    case True
    with flushed [OF True r] show ?thesis by simp
  next
    case False
    with merged [OF False] r m ne show ?thesis by auto
  qed
  from merged flushed key show ?thesis by blast
qed

lemma exampleAnalyzer_state:
  "requestMonitor (exampleAnalyzer mps) (getMessagePairKey (exampleEvent sport ts d)) = Some 0"
  "0 < nextRef (exampleAnalyzer mps)" "nextRef (exampleAnalyzer mps) = 1"
  "heap (exampleAnalyzer mps) 0 = mps" "consumed (exampleAnalyzer mps) = []"
  by (simp_all add: exampleAnalyzer_def NewNetworkAnalyzer_def Let_def getMessagePairKey_def
      exampleEvent_def)

lemma unansweredPairs_fields:
  "requests unansweredPairs = Some (newEvents (exampleEvent 40000 90000000000 [1]) 1000)"
  "responses unansweredPairs = None" "\<not> sent_once unansweredPairs"
  "connects unansweredPairs = None"
  by (simp_all add: unansweredPairs_def examplePairs_def)

lemma exampleAnalyzer_reuse:
  "\<exists>na'. analyseRequest (exampleAnalyzer unansweredPairs) (exampleEvent 40001 95000000000 [3])
           = Inr na'"
  by (simp add: analyseRequest_def allocate_def newRequestPairs_def
      distributeTraceMetric_def exampleAnalyzer_def NewNetworkAnalyzer_def
      unansweredPairs_def examplePairs_def checkSend_def Let_def recordMessagePairSize_def
      relateConntrack_def exampleConfig_def parseProtocols_def getPort_def newEvents_def
      exampleEvent_def GetCachedParsersByPort_def getRecords_def getKey_def
      getMessagePairKey_def IsSportChanged_def distributeRecords_def)

theorem analyseRequest_fd_reuse_witness:
  "(\<exists>na'. analyseRequest (exampleAnalyzer unansweredPairs) (exampleEvent 40000 95000000000 [3])
            = Inr na' \<and>
          requestMonitor na' (1, 10) = Some 0 \<and> consumed na' = [] \<and>
          requests (heap na' 0) =
            Some (mergeEvent (exampleEvent 40000 95000000000 [3])
                    (newEvents (exampleEvent 40000 90000000000 [1]) 1000)))
   \<and> (\<exists>na'. analyseRequest (exampleAnalyzer unansweredPairs) (exampleEvent 40001 95000000000 [3])
            = Inr na' \<and>
          requestMonitor na' (1, 10) = Some 1 \<and> sent_once (heap na' 0))"
proof -
  let ?na = "exampleAnalyzer unansweredPairs"
  let ?same = "exampleEvent 40000 95000000000 [3]"
  let ?other = "exampleEvent 40001 95000000000 [3]"
  let ?old = "newEvents (exampleEvent 40000 90000000000 [1]) 1000"
  have q: "requests (heap ?na 0) = Some ?old"
    by (simp add: exampleAnalyzer_state unansweredPairs_fields)
  have u: "\<not> sent_once (heap ?na 0)"
    by (simp add: exampleAnalyzer_state unansweredPairs_fields)
  have a: "0 < nextRef ?na" by (simp add: exampleAnalyzer_state)
  have k: "getMessagePairKey ?same = (1, 10)" "getMessagePairKey ?other = (1, 10)"
    by (simp_all add: getMessagePairKey_def exampleEvent_def)
  have keep: "\<not> (responses (heap ?na 0) \<noteq> None \<or> IsSportChanged ?old ?same)"
    by (simp add: exampleAnalyzer_state unansweredPairs_fields IsSportChanged_def newEvents_def
        exampleEvent_def)
  have reuse: "responses (heap ?na 0) \<noteq> None \<or> IsSportChanged ?old ?other"
    by (simp add: IsSportChanged_def newEvents_def exampleEvent_def)
  note t1 = analyseRequest_fd_reuse [OF exampleAnalyzer_state(1) a q u, of 40000 95000000000 "[3]",
      THEN conjunct1, rule_format, OF keep]
  note t2 = analyseRequest_fd_reuse [OF exampleAnalyzer_state(1) a q u, of 40001 95000000000 "[3]",
      THEN conjunct2, THEN conjunct1, rule_format, OF reuse]
  from t1 have first: "\<exists>na'. analyseRequest ?na ?same = Inr na' \<and>
          requestMonitor na' (1, 10) = Some 0 \<and> consumed na' = [] \<and>
          requests (heap na' 0) = Some (mergeEvent ?same ?old)"
    using exampleAnalyzer_state(1) [of unansweredPairs 40000 95000000000 "[3]"]
    by (auto simp: exampleAnalyzer_state(5) k)
  from exampleAnalyzer_reuse obtain na' where r: "analyseRequest ?na ?other = Inr na'" by blast
  from t2 [OF r] have "requestMonitor na' (1, 10) = Some 1 \<and> sent_once (heap na' 0)"
    by (simp add: k exampleAnalyzer_state(3))
  with r have second: "\<exists>na'. analyseRequest ?na ?other = Inr na' \<and>
          requestMonitor na' (1, 10) = Some 1 \<and> sent_once (heap na' 0)" by blast
  from first second show ?thesis by (rule conjI)
qed

subsection \<open>Labels of a record\<close>

lemmas label_names =
  Pid_def RequestTid_def ResponseTid_def Comm_def SrcIp_def DstIp_def SrcPort_def DstPort_def
  DnatIp_def DnatPort_def ContainerId_def IsError_def ErrorType_def IsSlow_def IsServer_def
  Protocol_def EndTimestamp_def RequestPayload_def ResponsePayload_def

lemmas label_updates =
  UpdateAddIntValue_def UpdateAddStringValue_def UpdateAddBoolValue_def AddIntValue_def
  AddStringValue_def AddBoolValue_def

lemma recordLabels_error:
  "recordLabels evt addTid slow protocol labels IsError = Some (BoolValue False)"
  "recordLabels evt addTid slow protocol labels ErrorType = Some (IntValue NoError)"
  "recordLabels evt addTid slow protocol labels Protocol = Some (StringValue protocol)"
  by (simp_all add: recordLabels_def applyAll_def label_updates label_names)

lemma keeps_error_labels:
  "addNatTuple nt labels IsError = labels IsError"
  "addNatTuple nt labels ErrorType = labels ErrorType"
  "addNatTuple nt labels Protocol = labels Protocol"
  "addProtocolPayload na protocolName req resp labels IsError = labels IsError"
  "addProtocolPayload na protocolName req resp labels ErrorType = labels ErrorType"
  "addProtocolPayload na protocolName req resp labels Protocol = labels Protocol"
  "UpdateAddIntValue EndTimestamp t labels IsError = labels IsError"
  "UpdateAddIntValue EndTimestamp t labels ErrorType = labels ErrorType"
  "UpdateAddIntValue EndTimestamp t labels Protocol = labels Protocol"
  by (simp_all add: addNatTuple_def addProtocolPayload_def Let_def label_updates label_names
      split: option.splits)

lemma merged_error_labels:
  "Merge attrs labels IsError =
     (case (case attrs of None \<Rightarrow> None | Some a \<Rightarrow> a IsError) of
        None \<Rightarrow> labels IsError | Some v \<Rightarrow> Some v)"
  "Merge attrs labels ErrorType =
     (case parserErrorType attrs of None \<Rightarrow> labels ErrorType | Some v \<Rightarrow> Some v)"
  by (simp_all add: Merge_def parserErrorType_def map_add_def split: option.splits)

lemma error_label_names: "IsError \<noteq> ErrorType" "ErrorType \<noteq> IsError"
  by (simp_all add: IsError_def ErrorType_def)

lemma checkOtherErrors_labels:
  "checkOtherErrors noResponse l IsError =
     (if \<not> GetBoolValue l IsError \<and> noResponse then Some (BoolValue True) else l IsError)"
  "checkOtherErrors noResponse l ErrorType =
     (if \<not> GetBoolValue l IsError \<and> noResponse then Some (IntValue NoResponse)
      else l ErrorType)"
  by (simp_all add: checkOtherErrors_def AddIntValue_def AddBoolValue_def error_label_names)

lemma classified_pipeline:
  assumes b: "base IsError = Some (BoolValue False)" "base ErrorType = Some (IntValue NoError)"
    and f: "\<And>l. f l IsError = l IsError" "\<And>l. f l ErrorType = l ErrorType"
    and g: "\<And>l. g l IsError = l IsError" "\<And>l. g l ErrorType = l ErrorType"
  shows "classified attrs noResponse (g (checkOtherErrors noResponse (f (Merge attrs base))))"
proof -
  let ?m = "Merge attrs base"
  let ?c = "checkOtherErrors noResponse (f ?m)"
  have set: "GetBoolValue ?m IsError = parserSetError attrs"
    using b by (simp add: GetBoolValue_def merged_error_labels parserSetError_def
        split: option.splits)
  have ty: "?m ErrorType =
      (case parserErrorType attrs of None \<Rightarrow> Some (IntValue NoError) | Some v \<Rightarrow> Some v)"
    using b by (simp add: merged_error_labels split: option.splits)
  have fset: "GetBoolValue (f ?m) IsError = parserSetError attrs"
    using set f(1) [of ?m] by (simp add: GetBoolValue_def)
  have cErr: "?c IsError =
      (if \<not> parserSetError attrs \<and> noResponse then Some (BoolValue True) else ?m IsError)"
    by (simp add: checkOtherErrors_labels fset f)
  have cTy: "?c ErrorType =
      (if \<not> parserSetError attrs \<and> noResponse then Some (IntValue NoResponse)
       else ?m ErrorType)"
    by (simp add: checkOtherErrors_labels fset f)
  have gset: "GetBoolValue (g ?c) IsError =
      (if \<not> parserSetError attrs \<and> noResponse then True else parserSetError attrs)"
    using g(1) [of ?c] cErr set
    by (simp add: GetBoolValue_def)
  show ?thesis
    unfolding classified_def
    using gset cErr cTy ty
    by (auto simp: g NoResponse_def ConnectFail_def NoError_def split: option.splits)
qed

lemma getRecords_labels:
  assumes "requests (heap na ref) = Some reqs" "\<not> marksContinue attrs"
  shows "\<exists>r. getRecords na ref protocol attrs = Inr ([r], na) \<and>
     Labels r =
       addNatTuple (natTuple (heap na ref))
         (checkOtherErrors (responses (heap na ref) = None)
            ((case responses (heap na ref) of
                None \<Rightarrow> addProtocolPayload na protocol (getData reqs) None
              | Some x \<Rightarrow> addProtocolPayload na protocol (getData reqs) (Some (getData x)))
               ((case responses (heap na ref) of
                   Some x \<Rightarrow> UpdateAddIntValue EndTimestamp (sint (getLastTimestamp x))
                 | None \<Rightarrow> (\<lambda>labels. labels))
                  (Merge attrs
                     (recordLabels (event reqs) (addMessagePairsTid (heap na ref))
                        (if responses (heap na ref) \<noteq> None
                         then isSlow na (getPairsDuration (heap na ref)) protocol else False)
                        protocol Map.empty)))))"
  using assms
  by (simp add: getRecords_def marksContinue_def Let_def applyAll_def onLabels_def
      UpdateAddIntMetric_def setTimestamp_def poolGet_def)

lemma getRecordWithSinglePair_labels:
  "Labels (getRecordWithSinglePair na mp protocol a) =
     addNatTuple (mpNatTuple mp)
       (checkOtherErrors (response mp = None)
          ((case response mp of
              None \<Rightarrow> addProtocolPayload na protocol (evData (request mp)) None
            | Some x \<Rightarrow> addProtocolPayload na protocol (evData (request mp)) (Some (evData x)))
             ((case response mp of
                 Some x \<Rightarrow> UpdateAddIntValue EndTimestamp (sint (evTimestamp x))
               | None \<Rightarrow> (\<lambda>labels. labels))
                (Merge (Some a)
                   (recordLabels (request mp) (addMessagePairTid mp)
                      (isSlow na (pairDuration (ext na) mp) protocol) protocol Map.empty)))))"
  by (simp add: getRecordWithSinglePair_def Let_def applyAll_def onLabels_def
      UpdateAddIntMetric_def setTimestamp_def poolGet_def)

lemma getRecords_classified:
  assumes "requests (heap na ref) = Some reqs" "\<not> marksContinue attrs"
  shows "\<exists>r. getRecords na ref protocol attrs = Inr ([r], na) \<and>
     classified attrs (responses (heap na ref) = None) (Labels r)"
proof -
  from getRecords_labels [OF assms, of protocol] obtain r
    where r: "getRecords na ref protocol attrs = Inr ([r], na)"
      and l: "Labels r =
       addNatTuple (natTuple (heap na ref))
         (checkOtherErrors (responses (heap na ref) = None)
            ((\<lambda>l. (case responses (heap na ref) of
                None \<Rightarrow> addProtocolPayload na protocol (getData reqs) None
              | Some x \<Rightarrow> addProtocolPayload na protocol (getData reqs) (Some (getData x)))
               ((case responses (heap na ref) of
                   Some x \<Rightarrow> UpdateAddIntValue EndTimestamp (sint (getLastTimestamp x))
                 | None \<Rightarrow> (\<lambda>labels. labels)) l))
                  (Merge attrs
                     (recordLabels (event reqs) (addMessagePairsTid (heap na ref))
                        (if responses (heap na ref) \<noteq> None
                         then isSlow na (getPairsDuration (heap na ref)) protocol else False)
                        protocol Map.empty))))"
    by auto
  have "classified attrs (responses (heap na ref) = None) (Labels r)"
    unfolding l
    by (rule classified_pipeline)
      (simp_all add: recordLabels_error keeps_error_labels split: option.splits)
  with r show ?thesis by blast
qed

lemma getRecordWithSinglePair_classified:
  "classified (Some a) (response mp = None) (Labels (getRecordWithSinglePair na mp protocol a))"
proof -
  have l: "Labels (getRecordWithSinglePair na mp protocol a) =
     addNatTuple (mpNatTuple mp)
       (checkOtherErrors (response mp = None)
          ((\<lambda>l. (case response mp of
              None \<Rightarrow> addProtocolPayload na protocol (evData (request mp)) None
            | Some x \<Rightarrow> addProtocolPayload na protocol (evData (request mp)) (Some (evData x)))
             ((case response mp of
                 Some x \<Rightarrow> UpdateAddIntValue EndTimestamp (sint (evTimestamp x))
               | None \<Rightarrow> (\<lambda>labels. labels)) l))
                (Merge (Some a)
                   (recordLabels (request mp) (addMessagePairTid mp)
                      (isSlow na (pairDuration (ext na) mp) protocol) protocol Map.empty))))"
    by (simp add: getRecordWithSinglePair_labels)
  show ?thesis
    unfolding l
    by (rule classified_pipeline)
      (simp_all add: recordLabels_error keeps_error_labels split: option.splits)
qed

lemma getConnectFailRecords_labels:
  assumes "connects mps = Some c"
  shows "\<exists>r. getConnectFailRecords mps = Inr [r] \<and>
     Labels r IsError = Some (BoolValue True) \<and> Labels r ErrorType = Some (IntValue ConnectFail)"
  using assms
  by (simp add: getConnectFailRecords_def Let_def applyAll_def onLabels_def
      UpdateAddIntMetric_def setTimestamp_def poolGet_def label_updates label_names)

lemma readQuery_attributes:
  "readQuery h message n = Some (domain, message1) \<Longrightarrow> attributes message1 = attributes message"
  by (auto simp: readQuery_def split: option.splits)

lemma readIpV4Answer_attributes:
  "attributes (snd (readIpV4Answer h message n)) = attributes message"
  by (simp add: readIpV4Answer_def split: prod.splits)

lemma parseDnsResponse_error:
  assumes "parseDnsResponse h message = ((True, True), message')"
  shows "0 < rcodeOf h message \<longrightarrow>
           attributes message' IsError = Some (BoolValue True) \<and>
           attributes message' ErrorType = Some (IntValue ProtocolError)"
    "rcodeOf h message = 0 \<longrightarrow>
           attributes message' IsError = attributes message IsError \<and>
           attributes message' ErrorType = attributes message ErrorType"
  using assms readIpV4Answer_attributes
  by (auto simp: parseDnsResponse_def rcodeOf_def Let_def AddIntAttribute_def
      AddStringAttribute_def AddBoolAttribute_def label_updates label_names
      DnsDomain_def DnsIp_def DnsId_def DnsRcode_def
      split: if_splits option.splits prod.splits dest!: readQuery_attributes)
    (metis snd_conv)+

text \<open>
  C6. A record built by \<open>getRecords\<close> or \<open>getRecordWithSinglePair\<close> starts as "no
  error", takes over what the parser's attributes say, and is marked NoResponse only
  if it is not an error by then and there is no response: a parser that set isError
  keeps its classification; without that, a missing response gives isError with
  NoResponse; with a response, and no error type from the parser, the record is no
  error with NoError. ConnectFail is written by \<open>getConnectFailRecords\<close> alone, the
  path \<open>parseProtocols\<close> takes for a state without requests. \<open>parseDnsResponse\<close>
  sets isError with ProtocolError exactly when rcode is positive.
\<close>

theorem error_classification:
  "(requests (heap na ref) = Some reqs \<and> \<not> marksContinue attrs \<longrightarrow>
      (\<exists>r. getRecords na ref protocol attrs = Inr ([r], na) \<and>
           classified attrs (responses (heap na ref) = None) (Labels r)))
   \<and> classified (Some a) (response mp = None)
        (Labels (getRecordWithSinglePair na mp protocol a))
   \<and> (connects mps = Some c \<longrightarrow>
      (\<exists>r. getConnectFailRecords mps = Inr [r] \<and>
           Labels r IsError = Some (BoolValue True) \<and>
           Labels r ErrorType = Some (IntValue ConnectFail)))
   \<and> (requests (heap na ref) = None \<longrightarrow> parseProtocols na ref = connectFail na (heap na ref))
   \<and> (\<forall>message'. parseDnsResponse h message = ((True, True), message') \<longrightarrow>
         (0 < rcodeOf h message \<longrightarrow>
            attributes message' IsError = Some (BoolValue True) \<and>
            attributes message' ErrorType = Some (IntValue ProtocolError)) \<and>
         (rcodeOf h message = 0 \<longrightarrow>
            attributes message' IsError = attributes message IsError \<and>
            attributes message' ErrorType = attributes message ErrorType))"
proof (intro conjI allI impI)
  show "\<exists>r. getRecords na ref protocol attrs = Inr ([r], na) \<and>
           classified attrs (responses (heap na ref) = None) (Labels r)"
    if "requests (heap na ref) = Some reqs \<and> \<not> marksContinue attrs"
    using that getRecords_classified by blast
  show "classified (Some a) (response mp = None)
        (Labels (getRecordWithSinglePair na mp protocol a))"
    by (rule getRecordWithSinglePair_classified)
  show "\<exists>r. getConnectFailRecords mps = Inr [r] \<and>
           Labels r IsError = Some (BoolValue True) \<and>
           Labels r ErrorType = Some (IntValue ConnectFail)"
    if "connects mps = Some c"
    using that by (rule getConnectFailRecords_labels)
  show "parseProtocols na ref = connectFail na (heap na ref)"
    if "requests (heap na ref) = None"
    using that by (simp add: parseProtocols_def Let_def split: option.splits)
  show "attributes message' IsError = Some (BoolValue True)"
    if "parseDnsResponse h message = ((True, True), message')" "0 < rcodeOf h message"
    for message'
    using parseDnsResponse_error(1) [OF that(1)] that(2) by simp
  show "attributes message' ErrorType = Some (IntValue ProtocolError)"
    if "parseDnsResponse h message = ((True, True), message')" "0 < rcodeOf h message"
    for message'
    using parseDnsResponse_error(1) [OF that(1)] that(2) by simp
  show "attributes message' IsError = attributes message IsError"
    if "parseDnsResponse h message = ((True, True), message')" "rcodeOf h message = 0"
    for message'
    using parseDnsResponse_error(2) [OF that(1)] that(2) by simp
  show "attributes message' ErrorType = attributes message ErrorType"
    if "parseDnsResponse h message = ((True, True), message')" "rcodeOf h message = 0"
    for message'
    using parseDnsResponse_error(2) [OF that(1)] that(2) by simp
qed

lemma exampleDnsResponse_parsed:
  "\<exists>message'. parseDnsResponse exampleReader exampleDnsResponse = ((True, True), message')"
  "rcodeOf exampleReader exampleDnsResponse = 3"
  by (simp_all add: parseDnsResponse_def rcodeOf_def exampleReader_def exampleDnsResponse_def
      NewResponseMessage_def Let_def readQuery_def readIpV4Answer_def
      split: prod.splits)

lemma answeredPairs_fields:
  "requests answeredPairs = Some (newEvents (exampleEvent 40000 90000000000 [1]) 1000)"
  "responses answeredPairs \<noteq> None" "\<not> sent_once answeredPairs"
  "connects answeredPairs = None"
  by (simp_all add: answeredPairs_def examplePairs_def)

lemma example_attributes:
  "\<not> parserSetError None" "parserErrorType None = None" "\<not> marksContinue None"
  "parserSetError (Some protocolErrorAttributes)"
  "parserErrorType (Some protocolErrorAttributes) = Some (IntValue ProtocolError)"
  "\<not> marksContinue (Some protocolErrorAttributes)"
  by (simp_all add: parserSetError_def parserErrorType_def marksContinue_def
      protocolErrorAttributes_def GetBoolValue_def HasAttribute_def IsError_def ErrorType_def
      HttpContinue_def)

theorem error_classification_witness:
  "(\<exists>r. getRecords (exampleAnalyzer unansweredPairs) 0 ''http'' None
           = Inr ([r], exampleAnalyzer unansweredPairs) \<and>
         Labels r IsError = Some (BoolValue True) \<and>
         Labels r ErrorType = Some (IntValue NoResponse))
   \<and> (\<exists>r. getRecords (exampleAnalyzer answeredPairs) 0 ''http'' None
           = Inr ([r], exampleAnalyzer answeredPairs) \<and>
         \<not> GetBoolValue (Labels r) IsError \<and>
         Labels r ErrorType = Some (IntValue NoError))
   \<and> (\<exists>r. getRecords (exampleAnalyzer answeredPairs) 0 ''dns'' (Some protocolErrorAttributes)
           = Inr ([r], exampleAnalyzer answeredPairs) \<and>
         GetBoolValue (Labels r) IsError \<and>
         Labels r ErrorType = Some (IntValue ProtocolError))
   \<and> (\<exists>message'. parseDnsResponse exampleReader exampleDnsResponse = ((True, True), message') \<and>
         attributes message' IsError = Some (BoolValue True) \<and>
         attributes message' ErrorType = Some (IntValue ProtocolError))"
proof -
  let ?u = "exampleAnalyzer unansweredPairs"
  let ?a = "exampleAnalyzer answeredPairs"
  let ?q = "newEvents (exampleEvent 40000 90000000000 [1]) 1000"
  have hu: "requests (heap ?u 0) = Some ?q \<and> \<not> marksContinue None"
    by (simp add: exampleAnalyzer_state unansweredPairs_fields example_attributes)
  have ha: "requests (heap ?a 0) = Some ?q \<and> \<not> marksContinue None"
    by (simp add: exampleAnalyzer_state answeredPairs_fields example_attributes)
  have hp: "requests (heap ?a 0) = Some ?q \<and> \<not> marksContinue (Some protocolErrorAttributes)"
    by (simp add: exampleAnalyzer_state answeredPairs_fields example_attributes)
  note t1 = error_classification [of ?u 0 ?q None, THEN conjunct1, rule_format, OF hu]
  note t2 = error_classification [of ?a 0 ?q None, THEN conjunct1, rule_format, OF ha]
  note t3 = error_classification [of ?a 0 ?q "Some protocolErrorAttributes",
      THEN conjunct1, rule_format, OF hp]
  have first: "\<exists>r. getRecords ?u 0 ''http'' None = Inr ([r], ?u) \<and>
         Labels r IsError = Some (BoolValue True) \<and>
         Labels r ErrorType = Some (IntValue NoResponse)"
    using t1 [of "''http''"]
    by (auto simp: classified_def example_attributes exampleAnalyzer_state unansweredPairs_fields)
  have second: "\<exists>r. getRecords ?a 0 ''http'' None = Inr ([r], ?a) \<and>
         \<not> GetBoolValue (Labels r) IsError \<and>
         Labels r ErrorType = Some (IntValue NoError)"
    using t2 [of "''http''"]
    by (auto simp: classified_def example_attributes exampleAnalyzer_state answeredPairs_fields)
  have third: "\<exists>r. getRecords ?a 0 ''dns'' (Some protocolErrorAttributes) = Inr ([r], ?a) \<and>
         GetBoolValue (Labels r) IsError \<and>
         Labels r ErrorType = Some (IntValue ProtocolError)"
    using t3 [of "''dns''"]
    by (auto simp: classified_def example_attributes exampleAnalyzer_state answeredPairs_fields)
  from exampleDnsResponse_parsed(1) obtain message'
    where p: "parseDnsResponse exampleReader exampleDnsResponse = ((True, True), message')"
    by blast
  have pos: "0 < rcodeOf exampleReader exampleDnsResponse"
    by (simp add: exampleDnsResponse_parsed(2))
  have fourth: "\<exists>message'. parseDnsResponse exampleReader exampleDnsResponse
         = ((True, True), message') \<and>
         attributes message' IsError = Some (BoolValue True) \<and>
         attributes message' ErrorType = Some (IntValue ProtocolError)"
    using p pos error_classification [where h = exampleReader and message = exampleDnsResponse]
    by blast
  from first second third fourth show ?thesis by (intro conjI)
qed

subsection \<open>HTTP continuation\<close>

lemma reinserted_stored:
  assumes "requests (heap na ref) = Some reqs"
    and "requestMonitor na (getMessagePairKey (event reqs)) = Some oldRef"
  shows "heap (reinserted na ref) oldRef = (heap na oldRef)\<lparr>requests := Some reqs\<rparr>"
    "x \<noteq> oldRef \<Longrightarrow> heap (reinserted na ref) x = heap na x"
  using assms by (simp_all add: reinserted_def putRequestBack_def)

lemma reinserted_absent:
  assumes "requests (heap na ref) = Some reqs"
    and "requestMonitor na (getMessagePairKey (event reqs)) = None"
  shows "reinserted na ref = na"
  using assms by (simp add: reinserted_def)

lemma getRecords_continue:
  assumes "requests (heap na ref) = Some reqs" "marksContinue attrs"
  shows "getRecords na ref protocol attrs = Inr ([], reinserted na ref)"
  using assms
  by (simp add: getRecords_def marksContinue_def reinserted_def Let_def split: option.splits)

lemma parseProtocol_continue:
  assumes "\<not> MultiRequests (parserTable na pr)" "requests (heap na ref) = Some reqs"
    and "responses (heap na ref) = Some resps"
    and "ParseRequest (parserTable na pr) (NewRequestMessage (getData reqs)) = (True, requestMsg)"
    and "ParseResponse (parserTable na pr)
           (NewResponseMessage (getData resps) (attributes requestMsg)) = (True, responseMsg)"
    and "HasAttribute (attributes responseMsg) HttpContinue"
  shows "parseProtocol na ref pr = Inr (Some [], reinserted na ref)"
proof -
  from assms(6) have "marksContinue (Some (attributes responseMsg))"
    by (simp add: marksContinue_def)
  from getRecords_continue [OF assms(2) this]
  show ?thesis using assms by (simp add: parseProtocol_def Let_def claimed_def)
qed

text \<open>
  C8. Given attributes with the HttpContinue mark, \<open>getRecords\<close> returns the empty
  list and puts the request buffer of the state it was called for into the state the
  map holds under the key of the first request: that state's requests become the
  buffer, nothing else in it and no other state changes; when the map holds nothing
  under the key, the analyzer is left as it was. Neither the map nor what the
  consumers got changes. A single-request parser whose response attributes carry
  the mark makes \<open>parseProtocol\<close> end this way, with an empty, non-nil list.
\<close>

theorem getRecords_http_continue:
  "(requests (heap na ref) = Some reqs \<and> marksContinue attrs \<longrightarrow>
      getRecords na ref protocol attrs = Inr ([], reinserted na ref) \<and>
      (\<forall>oldRef. requestMonitor na (getMessagePairKey (event reqs)) = Some oldRef \<longrightarrow>
         heap (reinserted na ref) oldRef = (heap na oldRef)\<lparr>requests := Some reqs\<rparr> \<and>
         (\<forall>x. x \<noteq> oldRef \<longrightarrow> heap (reinserted na ref) x = heap na x)) \<and>
      (requestMonitor na (getMessagePairKey (event reqs)) = None \<longrightarrow> reinserted na ref = na) \<and>
      requestMonitor (reinserted na ref) = requestMonitor na \<and>
      consumed (reinserted na ref) = consumed na)
   \<and> (\<not> MultiRequests (parserTable na pr) \<and> requests (heap na ref) = Some reqs \<and>
       responses (heap na ref) = Some resps \<and>
       ParseRequest (parserTable na pr) (NewRequestMessage (getData reqs)) = (True, requestMsg) \<and>
       ParseResponse (parserTable na pr)
         (NewResponseMessage (getData resps) (attributes requestMsg)) = (True, responseMsg) \<and>
       HasAttribute (attributes responseMsg) HttpContinue \<longrightarrow>
       parseProtocol na ref pr = Inr (Some [], reinserted na ref))"
  using getRecords_continue [of na ref reqs attrs protocol]
    reinserted_stored [of na ref reqs] reinserted_absent [of na ref reqs]
    parseProtocol_continue [of na pr ref reqs resps requestMsg responseMsg]
  by (simp add: reinserted_fields)

lemma httpAnalyzer_state:
  "heap (httpAnalyzer mps) 0 = mps" "parserTable (httpAnalyzer mps) pr = continueParser"
  "requestMonitor (httpAnalyzer mps) (1, 10) = Some 0"
  by (simp_all add: httpAnalyzer_def exampleAnalyzer_def NewNetworkAnalyzer_def Let_def)

lemma continuedPairs_fields:
  "requests continuedPairs = Some (newEvents (exampleEvent 40000 90000000000 [71, 69, 84]) 1000)"
  "responses continuedPairs = Some (newEvents (exampleEvent 40000 91000000000 [100]) 1000)"
  by (simp_all add: continuedPairs_def examplePairs_def)

lemma continued_request_arrives:
  "\<exists>na'. analyseRequest (httpAnalyzer continuedPairs) (exampleEvent 40000 92000000000 [1, 2])
            = Inr na' \<and>
          requestMonitor na' (1, 10) = Some 1 \<and>
          requests (heap na' 1) = requests continuedPairs \<and>
          consumed na' = []"
  by (simp add: analyseRequest_def allocate_def newRequestPairs_def
      distributeTraceMetric_def httpAnalyzer_def exampleAnalyzer_def NewNetworkAnalyzer_def
      continuedPairs_def examplePairs_def checkSend_def Let_def recordMessagePairSize_def
      relateConntrack_def exampleConfig_def parseProtocols_def getPort_def newEvents_def
      exampleEvent_def getRecords_def getKey_def parseProtocol_def continueParser_def
      NewRequestMessage_def NewResponseMessage_def getData_def AddBoolAttribute_def
      AddBoolValue_def HasAttribute_def claimed_def putRequestBack_def
      getMessagePairKey_def IsSportChanged_def distributeRecords_def)

theorem getRecords_http_continue_witness:
  "parseProtocol (httpAnalyzer continuedPairs) 0 0
     = Inr (Some [], reinserted (httpAnalyzer continuedPairs) 0)
   \<and> (\<exists>na'. analyseRequest (httpAnalyzer continuedPairs) (exampleEvent 40000 92000000000 [1, 2])
            = Inr na' \<and>
          requestMonitor na' (1, 10) = Some 1 \<and>
          requests (heap na' 1) = requests continuedPairs \<and>
          consumed na' = [])"
proof -
  let ?na = "httpAnalyzer continuedPairs"
  let ?reqs = "newEvents (exampleEvent 40000 90000000000 [71, 69, 84]) 1000"
  let ?resps = "newEvents (exampleEvent 40000 91000000000 [100]) 1000"
  let ?requestMsg = "NewRequestMessage (getData ?reqs)"
  let ?responseMsg = "AddBoolAttribute HttpContinue True
                        (NewResponseMessage (getData ?resps) (attributes ?requestMsg))"
  have h: "\<not> MultiRequests (parserTable ?na 0) \<and> requests (heap ?na 0) = Some ?reqs \<and>
       responses (heap ?na 0) = Some ?resps \<and>
       ParseRequest (parserTable ?na 0) (NewRequestMessage (getData ?reqs)) = (True, ?requestMsg) \<and>
       ParseResponse (parserTable ?na 0)
         (NewResponseMessage (getData ?resps) (attributes ?requestMsg)) = (True, ?responseMsg) \<and>
       HasAttribute (attributes ?responseMsg) HttpContinue"
    by (simp add: httpAnalyzer_state continuedPairs_fields continueParser_def
        NewRequestMessage_def NewResponseMessage_def getData_def newEvents_def exampleEvent_def
        AddBoolAttribute_def AddBoolValue_def HasAttribute_def)
  note t = getRecords_http_continue [where na = ?na and ref = 0 and reqs = ?reqs and pr = 0
      and resps = ?resps and requestMsg = ?requestMsg and responseMsg = ?responseMsg,
      THEN conjunct2, rule_format, OF h]
  from t continued_request_arrives show ?thesis by (rule conjI)
qed

subsection \<open>Static port mapping\<close>

lemma checkOtherErrors_other:
  "k \<noteq> IsError \<Longrightarrow> k \<noteq> ErrorType \<Longrightarrow> checkOtherErrors noResponse l k = l k"
  by (simp add: checkOtherErrors_def AddIntValue_def AddBoolValue_def)

lemma protocol_label_name: "Protocol \<noteq> IsError" "Protocol \<noteq> ErrorType"
  by (simp_all add: Protocol_def IsError_def ErrorType_def)

lemma getRecords_without_attributes:
  assumes "requests (heap na ref) = Some reqs"
  shows "\<exists>r. getRecords na ref protocol None = Inr ([r], na) \<and>
     Labels r Protocol = Some (StringValue protocol) \<and>
     (\<forall>k. k \<notin> recordLabelNames \<longrightarrow> Labels r k = None)"
proof -
  have c: "\<not> marksContinue None" by (simp add: marksContinue_def)
  from getRecords_labels [OF assms c, of protocol] obtain r
    where r: "getRecords na ref protocol None = Inr ([r], na)"
      and l: "Labels r =
       addNatTuple (natTuple (heap na ref))
         (checkOtherErrors (responses (heap na ref) = None)
            ((case responses (heap na ref) of
                None \<Rightarrow> addProtocolPayload na protocol (getData reqs) None
              | Some x \<Rightarrow> addProtocolPayload na protocol (getData reqs) (Some (getData x)))
               ((case responses (heap na ref) of
                   Some x \<Rightarrow> UpdateAddIntValue EndTimestamp (sint (getLastTimestamp x))
                 | None \<Rightarrow> (\<lambda>labels. labels))
                  (Merge None
                     (recordLabels (event reqs) (addMessagePairsTid (heap na ref))
                        (if responses (heap na ref) \<noteq> None
                         then isSlow na (getPairsDuration (heap na ref)) protocol else False)
                        protocol Map.empty)))))"
    by auto
  have p: "Labels r Protocol = Some (StringValue protocol)"
    unfolding l
    by (simp add: keeps_error_labels checkOtherErrors_other recordLabels_error Merge_def
        protocol_label_name split: option.splits)
  have n: "Labels r k = None" if "k \<notin> recordLabelNames" for k
    using that unfolding l
    by (simp add: recordLabelNames_def addNatTuple_def checkOtherErrors_def
        addProtocolPayload_def Merge_def recordLabels_def applyAll_def addMessagePairsTid_def
        label_updates Let_def split: option.splits)
  from r p n show ?thesis by blast
qed

lemma parseProtocol_feedback:
  assumes "parseProtocol na ref pr = Inr (r, na')"
  shows "portCounts na' = portCounts na" "cachedParsersMap na' = cachedParsersMap na"
    "parserTable na' = parserTable na"
  using parseProtocol_state [OF assms] by (auto simp: reinserted_fields)

lemma getRecords_feedback:
  assumes "getRecords na ref p a = Inr (recs, na')"
  shows "portCounts na' = portCounts na" "cachedParsersMap na' = cachedParsersMap na"
  using getRecords_state [OF assms] by (auto simp: reinserted_fields)

text \<open>
  C7. For a state whose port has a static protocol, \<open>parseProtocols\<close> answers with
  the ConnectFail record when the state has no requests; otherwise with the records
  of the static protocol's parser when it claims the state, and, when that parser
  rejects the state or no parser is registered under the name, with the one record
  \<open>getRecords\<close> builds for the static protocol and no attributes: its protocol label
  is the static protocol and it has no label beyond those \<open>getRecords\<close> writes
  itself. In every case the port counters and the port cache stay as they were.
\<close>

theorem static_port_mapping:
  assumes s: "staticPortMap na (getPort (heap na ref)) = Some staticProtocol"
  shows "(requests (heap na ref) = None \<longrightarrow>
            parseProtocols na ref = connectFail na (heap na ref) \<and>
            (\<forall>c. connects (heap na ref) = Some c \<longrightarrow>
               (\<exists>r. parseProtocols na ref = Inr ([r], na) \<and>
                    Labels r IsError = Some (BoolValue True) \<and>
                    Labels r ErrorType = Some (IntValue ConnectFail))))
       \<and> (requests (heap na ref) \<noteq> None \<longrightarrow>
            (\<forall>parser records na1.
               protocolMap na staticProtocol = Some parser \<and>
               parseProtocol na ref parser = Inr (Some records, na1) \<longrightarrow>
               parseProtocols na ref = Inr (records, na1)) \<and>
            (\<forall>parser e.
               protocolMap na staticProtocol = Some parser \<and>
               parseProtocol na ref parser = Inl e \<longrightarrow>
               parseProtocols na ref = Inl e) \<and>
            (protocolMap na staticProtocol = None \<or>
             (\<exists>parser. protocolMap na staticProtocol = Some parser \<and>
                       parseProtocol na ref parser = Inr (None, na)) \<longrightarrow>
             (\<exists>r. parseProtocols na ref = Inr ([r], na) \<and>
                  getRecords na ref staticProtocol None = Inr ([r], na) \<and>
                  Labels r Protocol = Some (StringValue staticProtocol) \<and>
                  (\<forall>k. k \<notin> recordLabelNames \<longrightarrow> Labels r k = None))))
       \<and> (\<forall>records na'. parseProtocols na ref = Inr (records, na') \<longrightarrow>
            portCounts na' = portCounts na \<and> cachedParsersMap na' = cachedParsersMap na)"
proof (intro conjI allI impI)
  show cf: "parseProtocols na ref = connectFail na (heap na ref)"
    if "requests (heap na ref) = None"
    using that s by (simp add: parseProtocols_def Let_def)
  show "\<exists>r. parseProtocols na ref = Inr ([r], na) \<and>
            Labels r IsError = Some (BoolValue True) \<and>
            Labels r ErrorType = Some (IntValue ConnectFail)"
    if "requests (heap na ref) = None" "connects (heap na ref) = Some c" for c
    using cf [OF that(1)] getConnectFailRecords_labels [OF that(2)]
    by (auto simp: connectFail_def)
  show "parseProtocols na ref = Inr (records, na1)"
    if "requests (heap na ref) \<noteq> None"
      "protocolMap na staticProtocol = Some parser \<and>
       parseProtocol na ref parser = Inr (Some records, na1)"
    for parser records na1
    using that s by (auto simp: parseProtocols_def Let_def)
  show "parseProtocols na ref = Inl e"
    if "requests (heap na ref) \<noteq> None"
      "protocolMap na staticProtocol = Some parser \<and> parseProtocol na ref parser = Inl e"
    for parser e
    using that s by (auto simp: parseProtocols_def Let_def)
  show "\<exists>r. parseProtocols na ref = Inr ([r], na) \<and>
            getRecords na ref staticProtocol None = Inr ([r], na) \<and>
            Labels r Protocol = Some (StringValue staticProtocol) \<and>
            (\<forall>k. k \<notin> recordLabelNames \<longrightarrow> Labels r k = None)"
    if q: "requests (heap na ref) \<noteq> None"
      and f: "protocolMap na staticProtocol = None \<or>
         (\<exists>parser. protocolMap na staticProtocol = Some parser \<and>
                   parseProtocol na ref parser = Inr (None, na))"
  proof -
    from q obtain reqs where "requests (heap na ref) = Some reqs" by auto
    from getRecords_without_attributes [OF this, of staticProtocol] obtain r
      where r: "getRecords na ref staticProtocol None = Inr ([r], na)"
        "Labels r Protocol = Some (StringValue staticProtocol)"
        "\<forall>k. k \<notin> recordLabelNames \<longrightarrow> Labels r k = None"
      by blast
    from f q s r(1) have "parseProtocols na ref = Inr ([r], na)"
      by (auto simp: parseProtocols_def Let_def)
    with r show ?thesis by blast
  qed
  show "portCounts na' = portCounts na"
    if "parseProtocols na ref = Inr (records, na')" for records na'
    using that s
    by (auto simp: parseProtocols_def Let_def connectFail_def
        split: if_splits option.splits sum.splits prod.splits
        dest!: parseProtocol_None dest: getRecords_feedback parseProtocol_feedback)
  show "cachedParsersMap na' = cachedParsersMap na"
    if "parseProtocols na ref = Inr (records, na')" for records na'
    using that s
    by (auto simp: parseProtocols_def Let_def connectFail_def
        split: if_splits option.splits sum.splits prod.splits
        dest!: parseProtocol_None dest: getRecords_feedback parseProtocol_feedback)
qed

lemma httpAnalyzer_static:
  "staticPortMap (httpAnalyzer unansweredPairs) (getPort (heap (httpAnalyzer unansweredPairs) 0))
     = Some ''http''"
  "staticPortMap (httpAnalyzer emptyRequestPairs) (getPort (heap (httpAnalyzer emptyRequestPairs) 0))
     = Some ''http''"
  "staticPortMap (httpAnalyzer connectingPairs) (getPort (heap (httpAnalyzer connectingPairs) 0))
     = Some ''http''"
  "protocolMap (httpAnalyzer mps) ''http'' = Some 0"
  by (simp_all add: httpAnalyzer_def exampleAnalyzer_def NewNetworkAnalyzer_def Let_def
      getPort_def unansweredPairs_def emptyRequestPairs_def connectingPairs_def examplePairs_def
      newEvents_def exampleEvent_def)

lemma httpAnalyzer_parses:
  "\<exists>records. parseProtocol (httpAnalyzer unansweredPairs) 0 0
                = Inr (Some records, httpAnalyzer unansweredPairs)"
  "parseProtocol (httpAnalyzer emptyRequestPairs) 0 0 = Inr (None, httpAnalyzer emptyRequestPairs)"
  by (simp_all add: parseProtocol_def httpAnalyzer_state continueParser_def Let_def
      unansweredPairs_def emptyRequestPairs_def examplePairs_def NewRequestMessage_def
      getData_def newEvents_def exampleEvent_def GetBoolValue_def claimed_def getRecords_def
      HasAttribute_def)

theorem static_port_mapping_witness:
  "(\<exists>records. parseProtocol (httpAnalyzer unansweredPairs) 0 0
                 = Inr (Some records, httpAnalyzer unansweredPairs) \<and>
               parseProtocols (httpAnalyzer unansweredPairs) 0
                 = Inr (records, httpAnalyzer unansweredPairs))
   \<and> (\<exists>r. parseProtocols (httpAnalyzer emptyRequestPairs) 0
              = Inr ([r], httpAnalyzer emptyRequestPairs) \<and>
            Labels r Protocol = Some (StringValue ''http'') \<and> Labels r DnsId = None)
   \<and> (\<exists>r. parseProtocols (httpAnalyzer connectingPairs) 0
              = Inr ([r], httpAnalyzer connectingPairs) \<and>
            Labels r ErrorType = Some (IntValue ConnectFail))"
proof -
  let ?u = "httpAnalyzer unansweredPairs"
  let ?e = "httpAnalyzer emptyRequestPairs"
  let ?c = "httpAnalyzer connectingPairs"
  from httpAnalyzer_parses(1) obtain records
    where p: "parseProtocol ?u 0 0 = Inr (Some records, ?u)" by blast
  have qu: "requests (heap ?u 0) \<noteq> None"
    by (simp add: httpAnalyzer_state unansweredPairs_fields)
  have hu: "protocolMap ?u ''http'' = Some 0 \<and> parseProtocol ?u 0 0 = Inr (Some records, ?u)"
    using p by (simp add: httpAnalyzer_static)
  note t1 = static_port_mapping [OF httpAnalyzer_static(1), THEN conjunct2, THEN conjunct1,
      rule_format, OF qu, THEN conjunct1, rule_format, OF hu]
  have first: "\<exists>records. parseProtocol ?u 0 0 = Inr (Some records, ?u) \<and>
               parseProtocols ?u 0 = Inr (records, ?u)"
    using p t1 by blast
  have qe: "requests (heap ?e 0) \<noteq> None"
    by (simp add: httpAnalyzer_state emptyRequestPairs_def examplePairs_def)
  have he: "protocolMap ?e ''http'' = None \<or>
      (\<exists>parser. protocolMap ?e ''http'' = Some parser \<and> parseProtocol ?e 0 parser = Inr (None, ?e))"
    using httpAnalyzer_parses(2) by (simp add: httpAnalyzer_static)
  note t2 = static_port_mapping [OF httpAnalyzer_static(2), THEN conjunct2, THEN conjunct1,
      rule_format, OF qe, THEN conjunct2, THEN conjunct2, rule_format, OF he]
  have dns: "DnsId \<notin> recordLabelNames"
    by (simp add: recordLabelNames_def DnsId_def label_names)
  have second: "\<exists>r. parseProtocols ?e 0 = Inr ([r], ?e) \<and>
            Labels r Protocol = Some (StringValue ''http'') \<and> Labels r DnsId = None"
    using t2 dns by blast
  have qc: "requests (heap ?c 0) = None"
    by (simp add: httpAnalyzer_state connectingPairs_def examplePairs_def)
  have cc: "connects (heap ?c 0) = Some (newEvents (exampleEvent 40000 90000000000 []) 1000)"
    by (simp add: httpAnalyzer_state connectingPairs_def examplePairs_def)
  note t3 = static_port_mapping [OF httpAnalyzer_static(3), THEN conjunct1, rule_format, OF qc,
      THEN conjunct2, rule_format, OF cc]
  have third: "\<exists>r. parseProtocols ?c 0 = Inr ([r], ?c) \<and>
            Labels r ErrorType = Some (IntValue ConnectFail)"
    using t3 by blast
  from first second third show ?thesis by (intro conjI)
qed

subsection \<open>Feedback to the port cache\<close>

lemma tryAllParsers_skip:
  "\<forall>q \<in> set failing. parseProtocol na ref q = Inr (None, na) \<Longrightarrow>
     tryAllParsers na ref port (failing @ rest) = tryAllParsers na ref port rest"
  by (induction failing) simp_all

lemma tryCachedParsers_skip:
  "\<forall>q \<in> set failing. parseProtocol na ref q = Inr (None, na) \<Longrightarrow>
     tryCachedParsers na ref port (failing @ rest) = tryCachedParsers na ref port rest"
  by (induction failing) simp_all

lemma tryCachedParsers_all_fail:
  "\<forall>q \<in> set failing. parseProtocol na ref q = Inr (None, na) \<Longrightarrow>
     tryCachedParsers na ref port failing = Inr (None, na)"
  using tryCachedParsers_skip [of failing na ref port "[]"] by simp

lemma AddCachedParser_cached:
  "p \<in> set (cachedFor (AddCachedParser port p na) port)"
  by (simp add: AddCachedParser_def cachedFor_def GetCachedParsersByPort_def
      split: option.splits)

lemma RemoveCachedParser_cached:
  "p \<notin> set (cachedFor (RemoveCachedParser port p na) port)"
  by (simp add: RemoveCachedParser_def cachedFor_def GetCachedParsersByPort_def
      split: option.splits)

lemma cachedFor_cong:
  "cachedParsersMap na' = cachedParsersMap na \<Longrightarrow> cachedFor na' port = cachedFor na port"
  by (simp add: cachedFor_def GetCachedParsersByPort_def)

lemma tryAllParsers_claimed:
  assumes p: "parseProtocol na ref p = Inr (Some records, na1)"
  shows "\<exists>na'. tryAllParsers na ref port (p # rest) = Inr (Some records, na') \<and>
     portCounts na' = (portCounts na)(p := (portCounts na p)(port := portCounts na p port + 1)) \<and>
     (portCounts na p port + 1 = CACHE_ADD_THRESHOLD \<longrightarrow>
        cachedParsersMap na' = cachedParsersMap (AddCachedParser port p na) \<and>
        p \<in> set (cachedFor na' port)) \<and>
     (portCounts na p port + 1 \<noteq> CACHE_ADD_THRESHOLD \<longrightarrow>
        cachedParsersMap na' = cachedParsersMap na)"
proof -
  note f = parseProtocol_feedback [OF p]
  let ?na2 = "snd (AddPortCount p port na1)"
  have c: "fst (AddPortCount p port na1) = portCounts na p port + 1"
    "portCounts ?na2 = (portCounts na)(p := (portCounts na p)(port := portCounts na p port + 1))"
    "cachedParsersMap ?na2 = cachedParsersMap na"
    using f by (simp_all add: AddPortCount_def Let_def)
  show ?thesis
  proof (cases "portCounts na p port + 1 = CACHE_ADD_THRESHOLD")
    case True
    let ?na' = "AddCachedParser port p ?na2"
    have r: "tryAllParsers na ref port (p # rest) = Inr (Some records, ?na')"
      using p c(1) True by (simp add: split_beta Let_def)
    have m: "cachedParsersMap ?na' = cachedParsersMap (AddCachedParser port p na)"
      using c(3) by (simp add: AddCachedParser_def split: option.splits)
    have n: "portCounts ?na' = portCounts ?na2"
      by (simp add: AddCachedParser_def split: option.splits)
    from r m n c(2) True AddCachedParser_cached [of p port ?na2] show ?thesis by auto
  next
    case False
    have r: "tryAllParsers na ref port (p # rest) = Inr (Some records, ?na2)"
      using p c(1) False by (simp add: split_beta Let_def)
    from r c False show ?thesis by auto
  qed
qed

lemma tryCachedParsers_claimed:
  assumes p: "parseProtocol na ref p = Inr (Some records, na1)"
  shows "\<exists>na'. tryCachedParsers na ref port (p # rest) = Inr (Some records, na') \<and>
     (GetProtocol (parserTable na p) = NOSUPPORT \<longrightarrow>
        (portCounts na p port + 1 = CACHE_RESET_THRESHOLD \<longrightarrow>
           portCounts na' = (portCounts na)(p := (portCounts na p)(port := 0)) \<and>
           cachedParsersMap na' = cachedParsersMap (RemoveCachedParser port p na) \<and>
           p \<notin> set (cachedFor na' port)) \<and>
        (portCounts na p port + 1 \<noteq> CACHE_RESET_THRESHOLD \<longrightarrow>
           portCounts na' =
             (portCounts na)(p := (portCounts na p)(port := portCounts na p port + 1)) \<and>
           cachedParsersMap na' = cachedParsersMap na)) \<and>
     (GetProtocol (parserTable na p) \<noteq> NOSUPPORT \<longrightarrow>
        portCounts na' = portCounts na \<and> cachedParsersMap na' = cachedParsersMap na)"
proof -
  note f = parseProtocol_feedback [OF p]
  let ?na2 = "snd (AddPortCount p port na1)"
  have c: "fst (AddPortCount p port na1) = portCounts na p port + 1"
    "portCounts ?na2 = (portCounts na)(p := (portCounts na p)(port := portCounts na p port + 1))"
    "cachedParsersMap ?na2 = cachedParsersMap na"
    using f by (simp_all add: AddPortCount_def Let_def)
  show ?thesis
  proof (cases "GetProtocol (parserTable na p) = NOSUPPORT")
    case False
    with p f show ?thesis by auto
  next
    case sentinel: True
    show ?thesis
    proof (cases "portCounts na p port + 1 = CACHE_RESET_THRESHOLD")
      case True
      let ?na' = "RemoveCachedParser port p (ResetPort p port ?na2)"
      have r: "tryCachedParsers na ref port (p # rest) = Inr (Some records, ?na')"
        using p c(1) True sentinel f(3) by (simp add: split_beta Let_def)
      have m: "cachedParsersMap ?na' = cachedParsersMap (RemoveCachedParser port p na)"
        using c(3) by (simp add: RemoveCachedParser_def ResetPort_def split: option.splits)
      have n: "portCounts ?na' = (portCounts na)(p := (portCounts na p)(port := 0))"
        using c(2) by (simp add: RemoveCachedParser_def ResetPort_def split: option.splits)
      from r m n True sentinel RemoveCachedParser_cached [of p port "ResetPort p port ?na2"]
      show ?thesis by auto
    next
      case False
      have r: "tryCachedParsers na ref port (p # rest) = Inr (Some records, ?na2)"
        using p c(1) False sentinel f(3) by (simp add: split_beta Let_def)
      from r c False sentinel show ?thesis by auto
    qed
  qed
qed

text \<open>
  C5. For a state with requests whose port has no static protocol. Full scan: when
  every cached parser and every parser before \<open>p\<close> in the list rejects the state and
  \<open>p\<close> claims it, the counter of \<open>p\<close> for the port goes up by one and nothing else
  is counted; \<open>p\<close> is installed in the port cache if the counter has thereby reached
  CACHE_ADD_THRESHOLD, and the cache is left alone otherwise. Cached step: when the
  cached parsers before \<open>p\<close> reject the state and the cached parser \<open>p\<close> claims it,
  then, if \<open>p\<close> is the no-support parser, its counter goes up by one, and if it has
  thereby reached CACHE_RESET_THRESHOLD the counter is set to zero and \<open>p\<close> taken out
  of the port cache, the cache being left alone otherwise; for any other parser
  neither counters nor cache change.
\<close>

theorem port_cache_feedback:
  assumes s: "staticPortMap na (getPort (heap na ref)) = None"
    and q: "requests (heap na ref) \<noteq> None"
  shows "((\<forall>c \<in> set (cachedFor na (getPort (heap na ref))).
             parseProtocol na ref c = Inr (None, na)) \<and>
          parsers na = failing @ p # rest \<and>
          (\<forall>f \<in> set failing. parseProtocol na ref f = Inr (None, na)) \<and>
          parseProtocol na ref p = Inr (Some records, na1) \<longrightarrow>
          (\<exists>na'. parseProtocols na ref = Inr (records, na') \<and>
             portCounts na' =
               (portCounts na)(p := (portCounts na p)
                  (getPort (heap na ref) := portCounts na p (getPort (heap na ref)) + 1)) \<and>
             (portCounts na p (getPort (heap na ref)) + 1 = CACHE_ADD_THRESHOLD \<longrightarrow>
                cachedParsersMap na' =
                  cachedParsersMap (AddCachedParser (getPort (heap na ref)) p na) \<and>
                p \<in> set (cachedFor na' (getPort (heap na ref)))) \<and>
             (portCounts na p (getPort (heap na ref)) + 1 \<noteq> CACHE_ADD_THRESHOLD \<longrightarrow>
                cachedParsersMap na' = cachedParsersMap na)))
       \<and> (cachedFor na (getPort (heap na ref)) = failing @ p # rest \<and>
          (\<forall>f \<in> set failing. parseProtocol na ref f = Inr (None, na)) \<and>
          parseProtocol na ref p = Inr (Some records, na1) \<longrightarrow>
          (\<exists>na'. parseProtocols na ref = Inr (records, na') \<and>
             (GetProtocol (parserTable na p) = NOSUPPORT \<longrightarrow>
                (portCounts na p (getPort (heap na ref)) + 1 = CACHE_RESET_THRESHOLD \<longrightarrow>
                   portCounts na' =
                     (portCounts na)(p := (portCounts na p)(getPort (heap na ref) := 0)) \<and>
                   cachedParsersMap na' =
                     cachedParsersMap (RemoveCachedParser (getPort (heap na ref)) p na) \<and>
                   p \<notin> set (cachedFor na' (getPort (heap na ref)))) \<and>
                (portCounts na p (getPort (heap na ref)) + 1 \<noteq> CACHE_RESET_THRESHOLD \<longrightarrow>
                   portCounts na' =
                     (portCounts na)(p := (portCounts na p)
                        (getPort (heap na ref) := portCounts na p (getPort (heap na ref)) + 1)) \<and>
                   cachedParsersMap na' = cachedParsersMap na)) \<and>
             (GetProtocol (parserTable na p) \<noteq> NOSUPPORT \<longrightarrow>
                portCounts na' = portCounts na \<and> cachedParsersMap na' = cachedParsersMap na)))"
proof (intro conjI impI)
  let ?port = "getPort (heap na ref)"
  have unfold: "parseProtocols na ref =
      (case tryCachedParsers na ref ?port (cachedFor na ?port) of
         Inl e \<Rightarrow> Inl e
       | Inr (Some records, na1) \<Rightarrow> Inr (records, na1)
       | Inr (None, na1) \<Rightarrow>
           (case tryAllParsers na1 ref ?port (parsers na1) of
              Inl e \<Rightarrow> Inl e
            | Inr (Some records, na2) \<Rightarrow> Inr (records, na2)
            | Inr (None, na2) \<Rightarrow> getRecords na2 ref NOSUPPORT None))"
    using s q by (auto simp: parseProtocols_def Let_def cachedFor_def)
  {
    assume a: "(\<forall>c \<in> set (cachedFor na ?port). parseProtocol na ref c = Inr (None, na)) \<and>
          parsers na = failing @ p # rest \<and>
          (\<forall>f \<in> set failing. parseProtocol na ref f = Inr (None, na)) \<and>
          parseProtocol na ref p = Inr (Some records, na1)"
    then have c: "tryCachedParsers na ref ?port (cachedFor na ?port) = Inr (None, na)"
      by (simp add: tryCachedParsers_all_fail)
    from a have sk: "tryAllParsers na ref ?port (parsers na) = tryAllParsers na ref ?port (p # rest)"
      by (simp add: tryAllParsers_skip)
    from a tryAllParsers_claimed [of na ref p records na1 ?port rest] obtain na'
      where t: "tryAllParsers na ref ?port (p # rest) = Inr (Some records, na')"
        and r: "portCounts na' =
               (portCounts na)(p := (portCounts na p)(?port := portCounts na p ?port + 1))"
          "portCounts na p ?port + 1 = CACHE_ADD_THRESHOLD \<longrightarrow>
             cachedParsersMap na' = cachedParsersMap (AddCachedParser ?port p na) \<and>
             p \<in> set (cachedFor na' ?port)"
          "portCounts na p ?port + 1 \<noteq> CACHE_ADD_THRESHOLD \<longrightarrow>
             cachedParsersMap na' = cachedParsersMap na"
      by blast
    from unfold c sk t have "parseProtocols na ref = Inr (records, na')" by simp
    with r show "\<exists>na'. parseProtocols na ref = Inr (records, na') \<and>
             portCounts na' =
               (portCounts na)(p := (portCounts na p)(?port := portCounts na p ?port + 1)) \<and>
             (portCounts na p ?port + 1 = CACHE_ADD_THRESHOLD \<longrightarrow>
                cachedParsersMap na' = cachedParsersMap (AddCachedParser ?port p na) \<and>
                p \<in> set (cachedFor na' ?port)) \<and>
             (portCounts na p ?port + 1 \<noteq> CACHE_ADD_THRESHOLD \<longrightarrow>
                cachedParsersMap na' = cachedParsersMap na)"
      by blast
  }
  {
    assume a: "cachedFor na ?port = failing @ p # rest \<and>
          (\<forall>f \<in> set failing. parseProtocol na ref f = Inr (None, na)) \<and>
          parseProtocol na ref p = Inr (Some records, na1)"
    then have sk: "tryCachedParsers na ref ?port (cachedFor na ?port)
        = tryCachedParsers na ref ?port (p # rest)"
      by (simp add: tryCachedParsers_skip)
    from a tryCachedParsers_claimed [of na ref p records na1 ?port rest] obtain na'
      where t: "tryCachedParsers na ref ?port (p # rest) = Inr (Some records, na')"
        and r: "GetProtocol (parserTable na p) = NOSUPPORT \<longrightarrow>
                (portCounts na p ?port + 1 = CACHE_RESET_THRESHOLD \<longrightarrow>
                   portCounts na' = (portCounts na)(p := (portCounts na p)(?port := 0)) \<and>
                   cachedParsersMap na' = cachedParsersMap (RemoveCachedParser ?port p na) \<and>
                   p \<notin> set (cachedFor na' ?port)) \<and>
                (portCounts na p ?port + 1 \<noteq> CACHE_RESET_THRESHOLD \<longrightarrow>
                   portCounts na' =
                     (portCounts na)(p := (portCounts na p)(?port := portCounts na p ?port + 1)) \<and>
                   cachedParsersMap na' = cachedParsersMap na)"
          "GetProtocol (parserTable na p) \<noteq> NOSUPPORT \<longrightarrow>
                portCounts na' = portCounts na \<and> cachedParsersMap na' = cachedParsersMap na"
      by blast
    from unfold sk t have "parseProtocols na ref = Inr (records, na')" by simp
    with r show "\<exists>na'. parseProtocols na ref = Inr (records, na') \<and>
             (GetProtocol (parserTable na p) = NOSUPPORT \<longrightarrow>
                (portCounts na p ?port + 1 = CACHE_RESET_THRESHOLD \<longrightarrow>
                   portCounts na' = (portCounts na)(p := (portCounts na p)(?port := 0)) \<and>
                   cachedParsersMap na' = cachedParsersMap (RemoveCachedParser ?port p na) \<and>
                   p \<notin> set (cachedFor na' ?port)) \<and>
                (portCounts na p ?port + 1 \<noteq> CACHE_RESET_THRESHOLD \<longrightarrow>
                   portCounts na' =
                     (portCounts na)(p := (portCounts na p)(?port := portCounts na p ?port + 1)) \<and>
                   cachedParsersMap na' = cachedParsersMap na)) \<and>
             (GetProtocol (parserTable na p) \<noteq> NOSUPPORT \<longrightarrow>
                portCounts na' = portCounts na \<and> cachedParsersMap na' = cachedParsersMap na)"
      by blast
  }
qed

lemma scanningAnalyzer_state:
  "staticPortMap (scanningAnalyzer n) port = None" "heap (scanningAnalyzer n) 0 = unansweredPairs"
  "parsers (scanningAnalyzer n) = [0, 1]" "cachedParsersMap (scanningAnalyzer n) = Map.empty"
  "portCounts (scanningAnalyzer n) p port = n"
  "parserTable (scanningAnalyzer n) 1 = genericParser"
  "staticPortMap (cachingAnalyzer n) port = None" "heap (cachingAnalyzer n) 0 = unansweredPairs"
  "cachedParsersMap (cachingAnalyzer n) = [80 \<mapsto> [1]]"
  "portCounts (cachingAnalyzer n) p port = n"
  "parserTable (cachingAnalyzer n) 1 = genericParser"
  by (simp_all add: scanningAnalyzer_def cachingAnalyzer_def exampleAnalyzer_def
      NewNetworkAnalyzer_def Let_def)

lemma unansweredPairs_port: "getPort unansweredPairs = 80"
  by (simp add: getPort_def unansweredPairs_def examplePairs_def newEvents_def exampleEvent_def)

lemma scanningAnalyzer_parses:
  "parseProtocol (scanningAnalyzer n) 0 0 = Inr (None, scanningAnalyzer n)"
  "\<exists>records. parseProtocol (scanningAnalyzer n) 0 1 = Inr (Some records, scanningAnalyzer n)"
  "\<exists>records. parseProtocol (cachingAnalyzer n) 0 1 = Inr (Some records, cachingAnalyzer n)"
  by (simp_all add: parseProtocol_def scanningAnalyzer_def cachingAnalyzer_def
      exampleAnalyzer_def NewNetworkAnalyzer_def rejectingParser_def genericParser_def Let_def
      unansweredPairs_def examplePairs_def NewRequestMessage_def
      getData_def newEvents_def exampleEvent_def GetBoolValue_def claimed_def getRecords_def
      HasAttribute_def)

theorem port_cache_feedback_witness:
  "(\<exists>records na'. parseProtocols (scanningAnalyzer 49) 0 = Inr (records, na') \<and>
       portCounts na' 1 80 = 50 \<and> 1 \<in> set (cachedFor na' 80))
   \<and> (\<exists>records na'. parseProtocols (scanningAnalyzer 10) 0 = Inr (records, na') \<and>
       portCounts na' 1 80 = 11 \<and> cachedParsersMap na' = Map.empty)
   \<and> (\<exists>records na'. parseProtocols (cachingAnalyzer 4999) 0 = Inr (records, na') \<and>
       portCounts na' 1 80 = 0 \<and> 1 \<notin> set (cachedFor na' 80))
   \<and> (\<exists>records na'. parseProtocols (cachingAnalyzer 50) 0 = Inr (records, na') \<and>
       portCounts na' 1 80 = 51 \<and> cachedParsersMap na' = [80 \<mapsto> [1]])"
proof -
  have scan: "\<exists>records na1.
      (\<forall>c \<in> set (cachedFor (scanningAnalyzer n) (getPort (heap (scanningAnalyzer n) 0))).
          parseProtocol (scanningAnalyzer n) 0 c = Inr (None, scanningAnalyzer n)) \<and>
      parsers (scanningAnalyzer n) = [0] @ 1 # [] \<and>
      (\<forall>f \<in> set [0]. parseProtocol (scanningAnalyzer n) 0 f = Inr (None, scanningAnalyzer n)) \<and>
      parseProtocol (scanningAnalyzer n) 0 1 = Inr (Some records, na1)" for n
    using scanningAnalyzer_parses(2) [of n]
    by (auto simp: scanningAnalyzer_state scanningAnalyzer_parses(1) cachedFor_def
        GetCachedParsersByPort_def)
  have cache: "\<exists>records na1.
      cachedFor (cachingAnalyzer n) (getPort (heap (cachingAnalyzer n) 0)) = [] @ 1 # [] \<and>
      (\<forall>f \<in> set []. parseProtocol (cachingAnalyzer n) 0 f = Inr (None, cachingAnalyzer n)) \<and>
      parseProtocol (cachingAnalyzer n) 0 1 = Inr (Some records, na1)" for n
    using scanningAnalyzer_parses(3) [of n]
    by (auto simp: scanningAnalyzer_state cachedFor_def GetCachedParsersByPort_def
        unansweredPairs_port)
  have qs: "requests (heap (scanningAnalyzer n) 0) \<noteq> None" for n
    by (simp add: scanningAnalyzer_state unansweredPairs_fields)
  have qc: "requests (heap (cachingAnalyzer n) 0) \<noteq> None" for n
    by (simp add: scanningAnalyzer_state unansweredPairs_fields)
  from scan [of 49] obtain r1 n1 where h1:
      "(\<forall>c \<in> set (cachedFor (scanningAnalyzer 49) (getPort (heap (scanningAnalyzer 49) 0))).
          parseProtocol (scanningAnalyzer 49) 0 c = Inr (None, scanningAnalyzer 49)) \<and>
      parsers (scanningAnalyzer 49) = [0] @ 1 # [] \<and>
      (\<forall>f \<in> set [0]. parseProtocol (scanningAnalyzer 49) 0 f = Inr (None, scanningAnalyzer 49)) \<and>
      parseProtocol (scanningAnalyzer 49) 0 1 = Inr (Some r1, n1)" by blast
  from scan [of 10] obtain r2 n2 where h2:
      "(\<forall>c \<in> set (cachedFor (scanningAnalyzer 10) (getPort (heap (scanningAnalyzer 10) 0))).
          parseProtocol (scanningAnalyzer 10) 0 c = Inr (None, scanningAnalyzer 10)) \<and>
      parsers (scanningAnalyzer 10) = [0] @ 1 # [] \<and>
      (\<forall>f \<in> set [0]. parseProtocol (scanningAnalyzer 10) 0 f = Inr (None, scanningAnalyzer 10)) \<and>
      parseProtocol (scanningAnalyzer 10) 0 1 = Inr (Some r2, n2)" by blast
  from cache [of 4999] obtain r3 n3 where h3:
      "cachedFor (cachingAnalyzer 4999) (getPort (heap (cachingAnalyzer 4999) 0)) = [] @ 1 # [] \<and>
      (\<forall>f \<in> set []. parseProtocol (cachingAnalyzer 4999) 0 f = Inr (None, cachingAnalyzer 4999)) \<and>
      parseProtocol (cachingAnalyzer 4999) 0 1 = Inr (Some r3, n3)" by blast
  from cache [of 50] obtain r4 n4 where h4:
      "cachedFor (cachingAnalyzer 50) (getPort (heap (cachingAnalyzer 50) 0)) = [] @ 1 # [] \<and>
      (\<forall>f \<in> set []. parseProtocol (cachingAnalyzer 50) 0 f = Inr (None, cachingAnalyzer 50)) \<and>
      parseProtocol (cachingAnalyzer 50) 0 1 = Inr (Some r4, n4)" by blast
  note t1 = port_cache_feedback [OF scanningAnalyzer_state(1) qs, THEN conjunct1, rule_format, OF h1]
  note t2 = port_cache_feedback [OF scanningAnalyzer_state(1) qs, THEN conjunct1, rule_format, OF h2]
  note t3 = port_cache_feedback [OF scanningAnalyzer_state(7) qc, THEN conjunct2, rule_format, OF h3]
  note t4 = port_cache_feedback [OF scanningAnalyzer_state(7) qc, THEN conjunct2, rule_format, OF h4]
  have first: "\<exists>records na'. parseProtocols (scanningAnalyzer 49) 0 = Inr (records, na') \<and>
       portCounts na' 1 80 = 50 \<and> 1 \<in> set (cachedFor na' 80)"
    using t1
    by (auto simp: scanningAnalyzer_state unansweredPairs_port CACHE_ADD_THRESHOLD_def)
  have second: "\<exists>records na'. parseProtocols (scanningAnalyzer 10) 0 = Inr (records, na') \<and>
       portCounts na' 1 80 = 11 \<and> cachedParsersMap na' = Map.empty"
    using t2
    by (auto simp: scanningAnalyzer_state unansweredPairs_port CACHE_ADD_THRESHOLD_def)
  have port: "getPort (heap (cachingAnalyzer n) 0) = 80" for n
    by (simp add: scanningAnalyzer_state unansweredPairs_port)
  have sentinel: "GetProtocol (parserTable (cachingAnalyzer n) 1) = NOSUPPORT" for n
    using scanningAnalyzer_state(11) [of n] by (simp only: genericParser_def protocolParser.simps)
  have full: "portCounts (cachingAnalyzer 4999) 1 80 + 1 = CACHE_RESET_THRESHOLD"
    by (simp add: scanningAnalyzer_state CACHE_RESET_THRESHOLD_def)
  have notyet: "portCounts (cachingAnalyzer 50) 1 80 + 1 \<noteq> CACHE_RESET_THRESHOLD"
    by (simp add: scanningAnalyzer_state CACHE_RESET_THRESHOLD_def)
  from t3 [unfolded port] sentinel [of 4999] full
  have "\<exists>na'. parseProtocols (cachingAnalyzer 4999) 0 = Inr (r3, na') \<and>
       portCounts na' = (portCounts (cachingAnalyzer 4999))
                          (1 := (portCounts (cachingAnalyzer 4999) 1)(80 := 0)) \<and>
       1 \<notin> set (cachedFor na' 80)"
    by blast
  then have third: "\<exists>records na'. parseProtocols (cachingAnalyzer 4999) 0 = Inr (records, na') \<and>
       portCounts na' 1 80 = 0 \<and> 1 \<notin> set (cachedFor na' 80)"
    by auto
  from t4 [unfolded port] sentinel [of 50] notyet
  have "\<exists>na'. parseProtocols (cachingAnalyzer 50) 0 = Inr (r4, na') \<and>
       portCounts na' = (portCounts (cachingAnalyzer 50))
                          (1 := (portCounts (cachingAnalyzer 50) 1)
                             (80 := portCounts (cachingAnalyzer 50) 1 80 + 1)) \<and>
       cachedParsersMap na' = cachedParsersMap (cachingAnalyzer 50)"
    by blast
  then have fourth: "\<exists>records na'. parseProtocols (cachingAnalyzer 50) 0 = Inr (records, na') \<and>
       portCounts na' 1 80 = 51 \<and> cachedParsersMap na' = [80 \<mapsto> [1]]"
    by (auto simp: scanningAnalyzer_state)
  from first second third fourth show ?thesis by (intro conjI)
qed

end
